theory Spec2Isabelle
  imports Complex_Main
begin

section \<open>Emergency-resource map: discovery, ranking and routing (script.js)\<close>

text \<open>
  The development embeds the map script of the page: \<open>haversine\<close>, \<open>buildOverpassQuery\<close>,
  \<open>fetchNearby\<close>, \<open>classify\<close>, \<open>clearPlaces\<close>, \<open>routeTo\<close>, the click handler of
  \<open>clearRoute\<close> and \<open>scanNearby\<close>. The file holds this code twice; the two copies
  differ in layout only.

  Conventions of the embedding.
  \<^item> A JavaScript number is \<open>NaN\<close> or a real (\<open>jsnum\<close>); arithmetic rounds to the
    nearest binary64 number (\<open>fl\<close>). What \<open>Math.sin\<close>, \<open>Math.cos\<close> and \<open>Math.atan2\<close>
    return is left to the engine by the language, so they are a parameter (\<open>engine\<close>) of
    everything that computes a distance.
  \<^item> Module-level variables (\<open>meMarker\<close>, \<open>placeMarkers\<close>, \<open>routeLayer\<close>) and the two
    page elements the script writes (\<open>statusEl\<close>, \<open>resultsEl\<close>) form the record \<open>app\<close>;
    every function takes the state and returns the new one.
  \<^item> An \<open>async\<close> function is cut at its \<open>await fetch(url)\<close>: the part before it is
    \<open>f_begin\<close>, the part after it is \<open>f_resume\<close>, which receives the outcome of the
    request. Other handlers may run between the two.
  \<^item> An exception is a value: the body of a \<open>try\<close> returns \<open>Inl message\<close> where the
    script throws, and the \<open>catch\<close> clause is the \<open>Inl\<close> branch of the caller.
  \<^item> The text of the status line is kept as a constructor per message template, with the
    interpolated values as arguments; rendering (\<open>toFixed\<close>, popups, icons) is outside
    the model.
\<close>

subsection \<open>Numbers\<close>

text \<open>
  \<open>fl x\<close> is the binary64 number nearest to \<open>x\<close>, ties to even: \<open>x\<close> is scaled so that
  its integer part has 53 bits, rounded to an integer and scaled back. The exponent is not
  bounded here, so overflow to \<open>Infinity\<close> and subnormal numbers are not modelled, nor is
  the sign of zero.
\<close>

datatype jsnum = NaN | Num real

definition round_even :: "real \<Rightarrow> int" where
  "round_even q =
     (let f = \<lfloor>q\<rfloor>
      in if q - of_int f < 1 / 2 then f
         else if 1 / 2 < q - of_int f then f + 1
         else if even f then f else f + 1)"

definition fl :: "real \<Rightarrow> real" where
  "fl x =
     (if x = 0 then 0
      else let e = \<lfloor>log 2 \<bar>x\<bar>\<rfloor> - 52
           in of_int (round_even (x / 2 powr of_int e)) * 2 powr of_int e)"

text \<open>The operators \<open>-\<close> and \<open>*\<close> on numbers; \<open>NaN\<close> in gives \<open>NaN\<close> out.\<close>

definition num_sub :: "jsnum \<Rightarrow> jsnum \<Rightarrow> jsnum" where
  "num_sub x y = (case (x, y) of (Num a, Num b) \<Rightarrow> Num (fl (a - b)) | _ \<Rightarrow> NaN)"

definition num_mul :: "jsnum \<Rightarrow> jsnum \<Rightarrow> jsnum" where
  "num_mul x y = (case (x, y) of (Num a, Num b) \<Rightarrow> Num (fl (a * b)) | _ \<Rightarrow> NaN)"

text \<open>The comparison \<open>x <= y\<close>; it is false when either side is \<open>NaN\<close>.\<close>

definition num_le :: "jsnum \<Rightarrow> jsnum \<Rightarrow> bool" where
  "num_le x y = (case (x, y) of (Num a, Num b) \<Rightarrow> a \<le> b | _ \<Rightarrow> False)"

text \<open>The real in a number (\<open>0\<close> for \<open>NaN\<close>), for stating results about numbers.\<close>

definition num_of :: "jsnum \<Rightarrow> real" where
  "num_of v = (case v of Num r \<Rightarrow> r | NaN \<Rightarrow> 0)"

text \<open>\<open>Math.PI\<close>, the binary64 number 3.141592653589793.\<close>

definition Math_PI :: real where
  "Math_PI = 884279719003555 / 2 ^ 48"

text \<open>
  \<open>Math.sqrt\<close> is \<open>NaN\<close> below zero and the rounded square root otherwise.
  \<open>Math.sin\<close>, \<open>Math.cos\<close> and \<open>Math.atan2\<close> on numbers are the engine's;
  \<open>Math.atan2\<close> is \<open>NaN\<close> when an argument is.
\<close>

record engine =
  math_sin :: "real \<Rightarrow> real"
  math_cos :: "real \<Rightarrow> real"
  math_atan2 :: "real \<Rightarrow> real \<Rightarrow> real"

definition Math_sqrt :: "real \<Rightarrow> jsnum" where
  "Math_sqrt x = (if x < 0 then NaN else Num (fl (sqrt x)))"

definition Math_atan2 :: "engine \<Rightarrow> jsnum \<Rightarrow> jsnum \<Rightarrow> jsnum" where
  "Math_atan2 eng y x =
     (case (y, x) of (Num b, Num a) \<Rightarrow> Num (math_atan2 eng b a) | _ \<Rightarrow> NaN)"

text \<open>
  One engine, for closed statements: each of the three functions returns the binary64
  number nearest to its exact value (\<open>atan2\<close> is the exact function with the
  quadrant rules of \<open>Math.atan2\<close>). No engine promises this for
  every argument, but a library aims at it; at the arguments that matter below, fdlibm
  (the library of V8 and SpiderMonkey) and glibc return exactly these numbers.
\<close>

definition atan2 :: "real \<Rightarrow> real \<Rightarrow> real" where
  "atan2 y x =
     (if 0 < x then arctan (y / x)
      else if x < 0 then (if 0 \<le> y then arctan (y / x) + pi else arctan (y / x) - pi)
      else if 0 < y then pi / 2
      else if y < 0 then - (pi / 2)
      else 0)"

definition nearest :: engine where
  "nearest =
     \<lparr>math_sin = (\<lambda>x. fl (sin x)),
      math_cos = (\<lambda>x. fl (cos x)),
      math_atan2 = (\<lambda>y x. fl (atan2 y x))\<rparr>"

subsection \<open>Geo math\<close>

text \<open>
  \<open>haversine\<close>, operation by operation, with its local \<open>a\<close> as a function of its own
  (\<open>haversine_a\<close>). Coordinates are numbers other than \<open>NaN\<close>, so everything up to \<open>a\<close>
  is one; the square root of \<open>1 - a\<close> is the first place where \<open>NaN\<close> can arise.
\<close>

definition toRad :: "real \<Rightarrow> real" where
  "toRad x = fl (fl (x * Math_PI) / 180)"

definition haversine_a :: "engine \<Rightarrow> real \<Rightarrow> real \<Rightarrow> real \<Rightarrow> real \<Rightarrow> real" where
  "haversine_a eng lat1 lon1 lat2 lon2 =
     (let dLat = toRad (fl (lat2 - lat1));
          dLon = toRad (fl (lon2 - lon1))
      in fl (fl (math_sin eng (fl (dLat / 2)) * math_sin eng (fl (dLat / 2)))
             + fl (fl (fl (math_cos eng (toRad lat1) * math_cos eng (toRad lat2))
                       * math_sin eng (fl (dLon / 2)))
                   * math_sin eng (fl (dLon / 2)))))"

definition haversine :: "engine \<Rightarrow> real \<Rightarrow> real \<Rightarrow> real \<Rightarrow> real \<Rightarrow> jsnum" where
  "haversine eng lat1 lon1 lat2 lon2 =
     (let R = 6371000;
          a = haversine_a eng lat1 lon1 lat2 lon2;
          c = num_mul (Num 2) (Math_atan2 eng (Math_sqrt a) (Math_sqrt (fl (1 - a))))
      in num_mul (Num R) c)"

text \<open>
  The same expression in exact real arithmetic (\<open>haversine_exact\<close>), and the textbook
  form of the great-circle distance,
  \<open>d = 2 R arcsin (sqrt (hav \<Delta>\<phi> + cos \<phi>\<^sub>1 cos \<phi>\<^sub>2 hav \<Delta>\<lambda>))\<close> with
  \<open>hav \<theta> = (sin (\<theta> / 2))\<^sup>2\<close>, angles in radians (degrees times \<open>\<pi>\<close> over 180) and
  \<open>R\<close> = 6,371,000 m. They say what distance the script aims at.
\<close>

definition toRad_exact :: "real \<Rightarrow> real" where
  "toRad_exact x = x * pi / 180"

definition haversine_a_exact :: "real \<Rightarrow> real \<Rightarrow> real \<Rightarrow> real \<Rightarrow> real" where
  "haversine_a_exact lat1 lon1 lat2 lon2 =
     (let dLat = toRad_exact (lat2 - lat1);
          dLon = toRad_exact (lon2 - lon1)
      in sin (dLat / 2) * sin (dLat / 2)
         + cos (toRad_exact lat1) * cos (toRad_exact lat2) * sin (dLon / 2) * sin (dLon / 2))"

definition haversine_exact :: "real \<Rightarrow> real \<Rightarrow> real \<Rightarrow> real \<Rightarrow> real" where
  "haversine_exact lat1 lon1 lat2 lon2 =
     (let R = 6371000;
          a = haversine_a_exact lat1 lon1 lat2 lon2;
          c = 2 * atan2 (sqrt a) (sqrt (1 - a))
      in R * c)"

definition hav :: "real \<Rightarrow> real" where
  "hav \<theta> = (sin (\<theta> / 2))\<^sup>2"

definition great_circle_spec :: "real \<Rightarrow> real \<Rightarrow> real \<Rightarrow> real \<Rightarrow> real" where
  "great_circle_spec lat1 lon1 lat2 lon2 =
     2 * 6371000 * arcsin (sqrt (hav (lat2 * pi / 180 - lat1 * pi / 180)
        + cos (lat1 * pi / 180) * cos (lat2 * pi / 180)
          * hav (lon2 * pi / 180 - lon1 * pi / 180)))"

subsection \<open>Text and numbers\<close>

fun show_nat :: "nat \<Rightarrow> string" where
  "show_nat n =
     (if n < 10 then [char_of (48 + n)]
      else show_nat (n div 10) @ [char_of (48 + n mod 10)])"

declare show_nat.simps [simp del]

definition show_int :: "int \<Rightarrow> string" where
  "show_int i = (if i < 0 then CHR ''-'' # show_nat (nat (- i)) else show_nat (nat i))"

text \<open>
  \<open>parseInt(string)\<close> with no radix: leading white space is skipped, one sign is read, a
  \<open>0x\<close>/\<open>0X\<close> prefix selects radix 16, and the longest prefix of digits is the value; no
  digit gives \<open>NaN\<close> (\<open>None\<close>). Strings are ASCII; the value is the mathematical integer.
\<close>

definition isWhiteSpace :: "char \<Rightarrow> bool" where
  "isWhiteSpace c \<longleftrightarrow> c \<in> set [CHR 0x09, CHR 0x0A, CHR 0x0B, CHR 0x0C, CHR 0x0D, CHR '' '']"

definition digitVal :: "char \<Rightarrow> nat option" where
  "digitVal c =
     (let n = (of_char c :: nat)
      in if 48 \<le> n \<and> n \<le> 57 then Some (n - 48)
         else if 97 \<le> n \<and> n \<le> 122 then Some (n - 87)
         else if 65 \<le> n \<and> n \<le> 90 then Some (n - 55)
         else None)"

definition isDigit :: "nat \<Rightarrow> char \<Rightarrow> bool" where
  "isDigit R c = (case digitVal c of Some d \<Rightarrow> d < R | None \<Rightarrow> False)"

definition digitOf :: "char \<Rightarrow> nat" where
  "digitOf c = (case digitVal c of Some d \<Rightarrow> d | None \<Rightarrow> 0)"

definition parseInt :: "string \<Rightarrow> int option" where
  "parseInt inputString =
     (let S = dropWhile isWhiteSpace inputString;
          sign = (if S \<noteq> [] \<and> hd S = CHR ''-'' then - 1 else (1::int));
          S1 = (if S \<noteq> [] \<and> (hd S = CHR ''+'' \<or> hd S = CHR ''-'') then tl S else S);
          hex = (take 2 S1 = ''0x'' \<or> take 2 S1 = ''0X'');
          R = (if hex then 16 else 10);
          S2 = (if hex then drop 2 S1 else S1);
          Z = takeWhile (isDigit R) S2
      in if Z = [] then None
         else Some (sign * int (foldl (\<lambda>acc c. acc * R + digitOf c) 0 Z)))"

text \<open>\<open>parseInt(value) || 2000\<close>: \<open>NaN\<close> and \<open>0\<close> are falsy.\<close>

definition radius_of :: "string \<Rightarrow> int" where
  "radius_of v = (case parseInt v of None \<Rightarrow> 2000 | Some n \<Rightarrow> if n = 0 then 2000 else n)"

text \<open>
  \<open>buildOverpassQuery\<close> concatenates its arguments into text; they are given here as
  the text the concatenation makes of them (\<open>show_int\<close> for the integer radius).
\<close>

definition buildOverpassQuery :: "string \<Rightarrow> string \<Rightarrow> string \<Rightarrow> string" where
  "buildOverpassQuery la lo radius =
     (let tags =
        [''node(around:'' @ radius @ '','' @ la @ '','' @ lo @ '')[amenity=hospital];'',
         ''node(around:'' @ radius @ '','' @ la @ '','' @ lo @ '')[amenity=police];'',
         ''node(around:'' @ radius @ '','' @ la @ '','' @ lo @ '')[amenity=fire_station];'',
         ''node(around:'' @ radius @ '','' @ la @ '','' @ lo @ '')[emergency=shelter];'',
         ''node(around:'' @ radius @ '','' @ la @ '','' @ lo @ '')[amenity=shelter];'']
      in ''[out:json][timeout:25];('' @ concat tags @ '');out center;'')"

subsection \<open>Elements and classification\<close>

text \<open>
  The \<open>tags\<close> field of an element as the script can see it: \<open>undefined\<close> or \<open>null\<close>
  (\<open>NoTags\<close>); another value that is not a mapping, truthy or not (\<open>OtherTags\<close>), of
  which every property is \<open>undefined\<close>; or a mapping from keys to text. A value that is
  not text is unequal (\<open>===\<close>) to every text literal, as a missing key is, so it is not
  told apart from one.
\<close>

datatype tags_field = NoTags | OtherTags bool | Tags "string \<rightharpoonup> string"

text \<open>\<open>t || {}\<close> and the property read \<open>t.k\<close> on its result.\<close>

definition or_empty :: "tags_field \<Rightarrow> tags_field" where
  "or_empty t = (case t of NoTags \<Rightarrow> Tags Map.empty | OtherTags False \<Rightarrow> Tags Map.empty | _ \<Rightarrow> t)"

definition getProp :: "tags_field \<Rightarrow> string \<Rightarrow> string option" where
  "getProp t k = (case t of Tags m \<Rightarrow> m k | _ \<Rightarrow> None)"

text \<open>
  Element fields \<open>id\<close>, \<open>lat\<close>, \<open>lon\<close>, \<open>tags\<close>, then \<open>type\<close> and \<open>dist\<close> as the script
  adds them (prefixed \<open>p_\<close>). The query asks for nodes only, which carry both coordinates.
\<close>

record element =
  p_id :: nat
  p_lat :: real
  p_lon :: real
  p_tags :: tags_field

record typed = element +
  p_type :: string

record place = typed +
  p_dist :: jsnum

definition classify :: "'a element_scheme \<Rightarrow> string" where
  "classify elem =
     (let tags = or_empty (p_tags elem)
      in if getProp tags ''amenity'' = Some ''hospital'' then ''hospital''
         else if getProp tags ''amenity'' = Some ''police'' then ''police''
         else if getProp tags ''amenity'' = Some ''fire_station'' then ''fire''
         else if getProp tags ''emergency'' = Some ''shelter'' \<or> getProp tags ''amenity'' = Some ''shelter''
           then ''shelter''
         else ''unknown'')"

text \<open>
  \<open>classify\<close> once more, with every step that can throw. A property read on
  \<open>undefined\<close> or \<open>null\<close> throws a \<open>TypeError\<close> (\<open>getProp_checked\<close>), and an exception
  ends the function; the five reads happen in the order of the script, the last one only
  when \<open>tags.emergency\<close> is not \<open>shelter\<close>.
\<close>

datatype js_error = TypeError

definition getProp_checked :: "tags_field \<Rightarrow> string \<Rightarrow> js_error + string option" where
  "getProp_checked t k =
     (case t of NoTags \<Rightarrow> Inl TypeError | OtherTags truthy \<Rightarrow> Inr None | Tags m \<Rightarrow> Inr (m k))"

definition classify_checked :: "'a element_scheme \<Rightarrow> js_error + string" where
  "classify_checked elem =
     (let tags = or_empty (p_tags elem)
      in case getProp_checked tags ''amenity'' of Inl err \<Rightarrow> Inl err | Inr v1 \<Rightarrow>
         if v1 = Some ''hospital'' then Inr ''hospital'' else
         case getProp_checked tags ''amenity'' of Inl err \<Rightarrow> Inl err | Inr v2 \<Rightarrow>
         if v2 = Some ''police'' then Inr ''police'' else
         case getProp_checked tags ''amenity'' of Inl err \<Rightarrow> Inl err | Inr v3 \<Rightarrow>
         if v3 = Some ''fire_station'' then Inr ''fire'' else
         case getProp_checked tags ''emergency'' of Inl err \<Rightarrow> Inl err | Inr v4 \<Rightarrow>
         if v4 = Some ''shelter'' then Inr ''shelter'' else
         case getProp_checked tags ''amenity'' of Inl err \<Rightarrow> Inl err | Inr v5 \<Rightarrow>
         if v5 = Some ''shelter'' then Inr ''shelter'' else Inr ''unknown'')"

subsection \<open>Filtering and ranking\<close>

text \<open>The list \<open>okTypes\<close>, pushed in this order from the four check boxes.\<close>

record checks =
  show_hospital :: bool
  show_police :: bool
  show_fire :: bool
  show_shelter :: bool

definition okTypes :: "checks \<Rightarrow> string list" where
  "okTypes c =
     (if show_hospital c then [''hospital''] else [])
     @ (if show_police c then [''police''] else [])
     @ (if show_fire c then [''fire''] else [])
     @ (if show_shelter c then [''shelter''] else [])"

text \<open>
  \<open>Array.prototype.sort(comparefn)\<close> is a stable sort: an element \<open>b\<close> is placed after \<open>a\<close>
  unless \<open>comparefn(a, b) > 0\<close>, and a result \<open>NaN\<close> of \<open>comparefn\<close> counts as \<open>0\<close>
  (\<open>positive\<close>). A stable sort has one result for a consistent comparator; it is computed
  here by insertion from the right. For a comparator that is not consistent the language
  leaves the order to the engine.
\<close>

definition positive :: "jsnum \<Rightarrow> bool" where
  "positive v = (case v of Num r \<Rightarrow> 0 < r | NaN \<Rightarrow> False)"

fun insert_sorted :: "('a \<Rightarrow> 'a \<Rightarrow> jsnum) \<Rightarrow> 'a \<Rightarrow> 'a list \<Rightarrow> 'a list" where
  "insert_sorted comparefn x [] = [x]"
| "insert_sorted comparefn x (y # ys) =
     (if positive (comparefn x y) then y # insert_sorted comparefn x ys else x # y # ys)"

definition array_sort :: "('a \<Rightarrow> 'a \<Rightarrow> jsnum) \<Rightarrow> 'a list \<Rightarrow> 'a list" where
  "array_sort comparefn xs = foldr (insert_sorted comparefn) xs []"

text \<open>
  The value of \<open>places\<close> in \<open>scanNearby\<close>: the two \<open>map\<close>s and the \<open>filter\<close>
  (\<open>places_filtered\<close>), then \<open>dist\<close> on every entry and the sort. \<open>classify\<close> stands
  for the call of \<open>classify\<close>, which never throws (\<open>classify_checked_value\<close>).
\<close>

definition places_filtered :: "element list \<Rightarrow> string list \<Rightarrow> typed list" where
  "places_filtered elements ok =
     filter (\<lambda>p. p_type p \<in> set ok)
       (map (\<lambda>p. element.extend p (typed.fields (classify p)))
         (map (\<lambda>e. \<lparr>p_id = p_id e, p_lat = p_lat e, p_lon = p_lon e, p_tags = or_empty (p_tags e)\<rparr>)
           elements))"

definition with_dist :: "engine \<Rightarrow> real \<Rightarrow> real \<Rightarrow> typed \<Rightarrow> place" where
  "with_dist eng myLat myLon p =
     typed.extend p (place.fields (haversine eng myLat myLon (p_lat p) (p_lon p)))"

definition places :: "engine \<Rightarrow> element list \<Rightarrow> string list \<Rightarrow> real \<Rightarrow> real \<Rightarrow> place list" where
  "places eng elements ok myLat myLon =
     array_sort (\<lambda>a b. num_sub (p_dist a) (p_dist b))
       (map (with_dist eng myLat myLon) (places_filtered elements ok))"

text \<open>
  The entry \<open>scanNearby\<close> builds for one element, all six fields at once; results
  about \<open>places\<close> are stated with it.
\<close>

definition place_of :: "engine \<Rightarrow> real \<Rightarrow> real \<Rightarrow> element \<Rightarrow> place" where
  "place_of eng myLat myLon e =
     \<lparr>p_id = p_id e, p_lat = p_lat e, p_lon = p_lon e, p_tags = or_empty (p_tags e),
      p_type = classify e, p_dist = haversine eng myLat myLon (p_lat e) (p_lon e)\<rparr>"

subsection \<open>Requests and their outcomes\<close>

text \<open>
  What \<open>await fetch(url)\<close> and \<open>await res.json()\<close> can give: the request is rejected with
  a message, or it resolves to a response with \<open>ok\<close>, \<open>status\<close> and a body; reading the
  body throws (\<open>Inl message\<close>) or gives the parsed value.
\<close>

record 'j response =
  ok :: bool
  status :: nat
  json :: "string + 'j"

datatype 'j fetched = Rejected string | Resolved "'j response"

text \<open>
  The common prefix of both \<open>try\<close> bodies: \<open>fetch\<close>, the \<open>res.ok\<close> test with its
  \<open>throw new Error(prefix + res.status)\<close>, and \<open>res.json()\<close>.
\<close>

definition fetch_json :: "string \<Rightarrow> 'j fetched \<Rightarrow> string + 'j" where
  "fetch_json prefix outcome =
     (case outcome of
        Rejected message \<Rightarrow> Inl message
      | Resolved res \<Rightarrow>
          if \<not> ok res then Inl (prefix @ show_nat (status res)) else json res)"

record overpass_json =
  elements :: "element list option"

record route =
  geometry :: "(real \<times> real) list"
  distance :: real
  duration :: real

record osrm_json =
  routes :: "route list option"

subsection \<open>Page state\<close>

datatype status_text =
    Located real real real
  | GeoError string
  | SearchingNearby
  | OverpassFailed string
  | NoLocationYet
  | NoPlacesFound
  | NoSelectedTypePlaces
  | FoundPlaces nat
  | LocationUnknown
  | RequestingRoute
  | RouteSummary real real
  | NoRouteFound
  | RoutingFailed string
  | RouteCleared

text \<open>
  A GeoJSON layer is an object: it has an identity (\<open>nextLayer\<close> counts the layers made so
  far) and the geometry it was made from. \<open>mapLayers\<close> holds the route layers that are on
  the map, that is, displayed.
\<close>

datatype layer = Layer nat "(real \<times> real) list"

record app =
  meMarker :: "(real \<times> real) option"
  placeMarkers :: "place list"
  routeLayer :: "layer option"
  mapLayers :: "layer set"
  nextLayer :: nat
  statusEl :: status_text
  resultsEl :: "place list"

definition setStatus :: "status_text \<Rightarrow> app \<Rightarrow> app" where
  "setStatus txt s = s\<lparr>statusEl := txt\<rparr>"

text \<open>\<open>map.removeLayer(l)\<close>; it does nothing for a layer that is not on the map.\<close>

definition removeLayer :: "layer \<Rightarrow> app \<Rightarrow> app" where
  "removeLayer l s = s\<lparr>mapLayers := mapLayers s - {l}\<rparr>"

text \<open>The success callback of \<open>watchPosition\<close> in \<open>startWatch\<close>.\<close>

definition onPosition :: "real \<Rightarrow> real \<Rightarrow> real \<Rightarrow> app \<Rightarrow> app" where
  "onPosition la lo accuracy s = (setStatus (Located la lo accuracy) s)\<lparr>meMarker := Some (la, lo)\<rparr>"

subsection \<open>Discovery\<close>

text \<open>
  \<open>fetchNearby\<close>: the status line is set and the request is sent (\<open>fetchNearby_begin\<close>);
  when the request settles, the \<open>try\<close> body ends in a \<open>return data.elements || []\<close>
  or in an exception, which the \<open>catch\<close> clause turns into a status line and \<open>[]\<close>
  (\<open>fetchNearby_resume\<close>).
\<close>

definition fetchNearby_begin :: "app \<Rightarrow> app" where
  "fetchNearby_begin s = setStatus SearchingNearby s"

definition fetchNearby_try :: "overpass_json fetched \<Rightarrow> string + element list" where
  "fetchNearby_try outcome =
     (case fetch_json ''Overpass error '' outcome of
        Inl message \<Rightarrow> Inl message
      | Inr data \<Rightarrow> Inr (case elements data of None \<Rightarrow> [] | Some es \<Rightarrow> es))"

definition fetchNearby_resume :: "overpass_json fetched \<Rightarrow> app \<Rightarrow> element list \<times> app" where
  "fetchNearby_resume outcome s =
     (case fetchNearby_try outcome of
        Inl message \<Rightarrow> ([], setStatus (OverpassFailed message) s)
      | Inr es \<Rightarrow> (es, s))"

definition fetchNearby :: "overpass_json fetched \<Rightarrow> app \<Rightarrow> element list \<times> app" where
  "fetchNearby outcome s = fetchNearby_resume outcome (fetchNearby_begin s)"

definition clearPlaces :: "app \<Rightarrow> app" where
  "clearPlaces s = s\<lparr>placeMarkers := [], resultsEl := []\<rparr>"

text \<open>
  \<open>scanNearby\<close>. What the page gives it: the text of the \<open>radius\<close> field and the four
  check boxes. Its first part runs up to the request and keeps \<open>latlng\<close> and \<open>radius\<close>
  (\<open>None\<close> when it returned before the request); the second part runs from the answer on.
\<close>

record scan_request =
  req_lat :: real
  req_lng :: real
  req_radius :: int

definition scanNearby_begin :: "string \<Rightarrow> app \<Rightarrow> app \<times> scan_request option" where
  "scanNearby_begin radius_value s =
     (let s1 = clearPlaces s
      in case meMarker s1 of
           None \<Rightarrow> (setStatus NoLocationYet s1, None)
         | Some (la, lng) \<Rightarrow>
             (fetchNearby_begin s1,
              Some \<lparr>req_lat = la, req_lng = lng, req_radius = radius_of radius_value\<rparr>))"

definition scanNearby_resume ::
  "engine \<Rightarrow> scan_request \<Rightarrow> checks \<Rightarrow> overpass_json fetched \<Rightarrow> app \<Rightarrow> app" where
  "scanNearby_resume eng req c outcome s =
     (let (es, s1) = fetchNearby_resume outcome s
      in if es = [] then setStatus NoPlacesFound s1
         else
           let ps = places eng es (okTypes c) (req_lat req) (req_lng req)
           in if ps = [] then setStatus NoSelectedTypePlaces s1
              else setStatus (FoundPlaces (length ps))
                     (s1\<lparr>placeMarkers := placeMarkers s1 @ ps, resultsEl := resultsEl s1 @ ps\<rparr>))"

text \<open>One discovery cycle with nothing else running between request and answer.\<close>

definition scanNearby ::
  "engine \<Rightarrow> string \<Rightarrow> checks \<Rightarrow> overpass_json fetched \<Rightarrow> app \<Rightarrow> app" where
  "scanNearby eng radius_value c outcome s =
     (case scanNearby_begin radius_value s of
        (s1, None) \<Rightarrow> s1
      | (s1, Some req) \<Rightarrow> scanNearby_resume eng req c outcome s1)"

text \<open>The query text of a cycle, given the text of the two coordinates.\<close>

definition scan_query :: "string \<Rightarrow> string \<Rightarrow> string \<Rightarrow> string" where
  "scan_query la lo radius_value = buildOverpassQuery la lo (show_int (radius_of radius_value))"

subsection \<open>Routing\<close>


definition routeTo_resume :: "osrm_json fetched \<Rightarrow> app \<Rightarrow> app" where
  "routeTo_resume outcome s =
     (case fetch_json ''Routing error '' outcome of
        Inl message \<Rightarrow> setStatus (RoutingFailed message) s
      | Inr j \<Rightarrow>
          let s1 = (case routeLayer s of None \<Rightarrow> s | Some l \<Rightarrow> removeLayer l s)
          in case routes j of
               Some (r # rest) \<Rightarrow>
                 let l = Layer (nextLayer s1) (geometry r);
                     s2 = setStatus (RouteSummary (distance r) (duration r))
                            (s1\<lparr>routeLayer := Some l,
                                mapLayers := insert l (mapLayers s1),
                                nextLayer := Suc (nextLayer s1)\<rparr>)
                 in if geometry r = [] then setStatus (RoutingFailed ''Bounds are not valid.'') s2
                    else s2
             | _ \<Rightarrow> setStatus NoRouteFound s1)"

text \<open>The click handler of the \<open>clearRoute\<close> button.\<close>

definition clearRoute_click :: "app \<Rightarrow> app" where
  "clearRoute_click s =
     (case routeLayer s of
        None \<Rightarrow> s
      | Some l \<Rightarrow> setStatus RouteCleared ((removeLayer l s)\<lparr>routeLayer := None\<rparr>))"

subsection \<open>The selection coordinator, read off the page state\<close>

text \<open>
  The route that is displayed: the layer \<open>routeLayer\<close> refers to, when it is on the map.
  The coordinator is \<open>Requesting\<close> while a route request is in flight, otherwise \<open>Active\<close>
  when a route is displayed and \<open>Idle\<close> when none is.
\<close>

definition displayed_route :: "app \<Rightarrow> layer option" where
  "displayed_route s =
     (case routeLayer s of
        None \<Rightarrow> None
      | Some l \<Rightarrow> if l \<in> mapLayers s then Some l else None)"

datatype coordinator = Idle | Requesting | Active

definition coordinator_state :: "bool \<Rightarrow> app \<Rightarrow> coordinator" where
  "coordinator_state in_flight s =
     (if in_flight then Requesting
      else if displayed_route s = None then Idle else Active)"

section \<open>Properties\<close>

subsection \<open>Rounding\<close>

text \<open>
  \<open>fl\<close> is evaluated with \<open>fl_eval\<close>: \<open>fl x = m / 2 ^ k\<close> when \<open>x * 2 ^ k\<close> has
  53 bits before the point and \<open>m\<close> is the integer nearest to it.
\<close>

lemma round_even_near:
  assumes "\<bar>q - of_int m\<bar> < 1 / 2"
  shows "round_even q = m"
proof (cases "of_int m \<le> q")
  case True
  with assms have "\<lfloor>q\<rfloor> = m" by (intro floor_unique) auto
  with True assms show ?thesis by (simp add: round_even_def)
next
  case False
  with assms have "\<lfloor>q\<rfloor> = m - 1" by (intro floor_unique) auto
  with False assms show ?thesis by (auto simp add: round_even_def Let_def)
qed

lemma round_even_bounds: "\<lfloor>q\<rfloor> \<le> round_even q" "round_even q \<le> \<lfloor>q\<rfloor> + 1"
  by (simp_all add: round_even_def Let_def)

lemma floor_log2:
  assumes "2 ^ 52 \<le> y * 2 ^ k" "y * 2 ^ k < 2 ^ 53"
  shows "\<lfloor>log 2 y\<rfloor> = 52 - int k"
proof -
  have "(0::real) < 2 ^ 52" by simp
  with assms(1) have "0 < y * 2 ^ k" by linarith
  then have y: "0 < y" by (simp add: zero_less_mult_iff)
  have "log 2 (y * 2 ^ k) = log 2 y + real k"
    using y by (simp add: log_mult log_nat_power)
  moreover have "52 \<le> log 2 (y * 2 ^ k)"
    using assms(1) y by (subst le_log_iff) (simp_all add: powr_numeral)
  moreover have "log 2 (y * 2 ^ k) < 53"
    using assms(2) y by (subst log_less_iff) (simp_all add: powr_numeral)
  ultimately show ?thesis by (intro floor_unique) simp_all
qed

lemma fl_eval:
  assumes "2 ^ 52 \<le> \<bar>x\<bar> * 2 ^ k" "\<bar>x\<bar> * 2 ^ k < 2 ^ 53"
    and "\<bar>x * 2 ^ k - of_int m\<bar> < 1 / 2"
  shows "fl x = of_int m / 2 ^ k"
proof -
  have x: "x \<noteq> 0" using assms(1) by auto
  have e: "\<lfloor>log 2 \<bar>x\<bar>\<rfloor> - 52 = - int k"
    using floor_log2 [OF assms(1,2)] by simp
  have p: "(2::real) powr of_int (- int k) = 1 / 2 ^ k"
    by (simp add: powr_minus powr_realpow divide_inverse)
  show ?thesis
    using x round_even_near [OF assms(3)]
    by (simp add: fl_def e p Let_def del: of_int_minus)
qed

lemma fl_0: "fl 0 = 0"
  by (simp add: fl_def)

lemma fl_1: "fl 1 = 1"
  using fl_eval [of 1 52 "2 ^ 52"] by simp

text \<open>Rounding keeps the sign.\<close>

lemma scaled_large:
  assumes "0 < y"
  shows "2 ^ 52 \<le> y / 2 powr of_int (\<lfloor>log 2 y\<rfloor> - 52)"
proof -
  have "2 powr of_int \<lfloor>log 2 y\<rfloor> \<le> 2 powr log 2 y"
    by (intro powr_mono) simp_all
  also have "\<dots> = y" using assms by simp
  finally have "2 powr of_int \<lfloor>log 2 y\<rfloor> \<le> y" .
  moreover have "(2::real) powr of_int (\<lfloor>log 2 y\<rfloor> - 52) = 2 powr of_int \<lfloor>log 2 y\<rfloor> / 2 ^ 52"
    by (simp add: powr_diff powr_numeral)
  ultimately show ?thesis
    by (simp add: field_simps)
qed

lemma fl_pos: assumes "0 < x" shows "0 < fl x"
proof -
  let ?e = "\<lfloor>log 2 \<bar>x\<bar>\<rfloor> - 52"
  let ?q = "x / 2 powr of_int ?e"
  have "2 ^ 52 \<le> ?q" using scaled_large [of x] assms by simp
  moreover have "(1::real) \<le> 2 ^ 52" by simp
  ultimately have "1 \<le> ?q" by (rule order_trans [rotated])
  then have "1 \<le> \<lfloor>?q\<rfloor>" by (simp add: le_floor_iff)
  with round_even_bounds(1) [of ?q] have "0 < round_even ?q" by linarith
  then have "0 < of_int (round_even ?q) * (2::real) powr of_int ?e" by simp
  with assms show ?thesis by (simp add: fl_def Let_def)
qed

lemma fl_neg: assumes "x < 0" shows "fl x < 0"
proof -
  let ?e = "\<lfloor>log 2 \<bar>x\<bar>\<rfloor> - 52"
  let ?q = "x / 2 powr of_int ?e"
  have "2 ^ 52 \<le> (- x) / 2 powr of_int ?e" using scaled_large [of "- x"] assms by simp
  moreover have "(2::real) \<le> 2 ^ 52" by simp
  ultimately have "2 \<le> (- x) / 2 powr of_int ?e" by (rule order_trans [rotated])
  then have "?q \<le> - 2" by simp
  then have "\<lfloor>?q\<rfloor> \<le> - 2" by (simp add: floor_le_iff)
  with round_even_bounds(2) [of ?q] have "round_even ?q < 0" by linarith
  then have "of_int (round_even ?q) * (2::real) powr of_int ?e < 0"
    by (simp add: mult_less_0_iff)
  with assms show ?thesis by (simp add: fl_def Let_def)
qed

lemma fl_pos_iff: "0 < fl x \<longleftrightarrow> 0 < x"
proof (cases "0 < x")
  case True
  then show ?thesis by (simp add: fl_pos)
next
  case False
  then have "x = 0 \<or> x < 0" by auto
  then have "fl x \<le> 0" using fl_neg [of x] by (auto simp: fl_0)
  with False show ?thesis by simp
qed

lemma positive_sub: "positive (num_sub (Num a) (Num b)) \<longleftrightarrow> b < a"
  by (simp add: positive_def num_sub_def fl_pos_iff)

subsection \<open>Sine and cosine at three arguments\<close>

text \<open>
  Enclosures of \<open>sin\<close> and \<open>cos\<close> by their Maclaurin polynomials, at the halves of
  the angles \<open>toRad 24\<close> and \<open>toRad 180\<close>; they decide to which binary64 number each
  value rounds.
\<close>

lemma Maclaurin_cos_bound:
  "\<bar>cos x - (\<Sum>m<n. cos_coeff m * x ^ m)\<bar> \<le> inverse (fact n) * \<bar>x\<bar> ^ n" for x :: real
proof -
  obtain t where t: "cos x = (\<Sum>m<n. cos_coeff m * x ^ m) + (cos (t + 1/2 * real n * pi) / fact n) * x ^ n"
    using Maclaurin_cos_expansion [of x n] by blast
  define c where "c = cos (t + 1/2 * real n * pi)"
  define r where "r = inverse (fact n) * \<bar>x\<bar> ^ n"
  have r0: "0 \<le> r" by (simp add: r_def)
  have "cos x - (\<Sum>m<n. cos_coeff m * x ^ m) = c / fact n * x ^ n"
    using t by (simp add: c_def)
  then have "\<bar>cos x - (\<Sum>m<n. cos_coeff m * x ^ m)\<bar> = \<bar>c\<bar> * r"
    by (simp add: r_def abs_mult power_abs divide_inverse)
  also have "\<dots> \<le> 1 * r"
    using r0 by (intro mult_right_mono) (simp_all add: c_def)
  finally show ?thesis by (simp add: r_def)
qed

lemma sin_theta_sum: "(\<Sum>m<14. sin_coeff m * x ^ m) = x - x ^ 3 / 6 + x ^ 5 / 120 - x ^ 7 / 5040 + x ^ 9 / 362880 - x ^ 11 / 39916800 + x ^ 13 / 6227020800" for x :: real
proof -
  have "{..<14::nat} = {0,1,2,3,4,5,6,7,8,9,10,11,12,13}" by auto arith
  then show ?thesis
    by (simp add: sin_coeff_def fact_numeral)
qed

lemma sin_theta: "\<bar>sin (7545853602163669 / 2 ^ 55) * 2 ^ 55 - 7490808106342645\<bar> < (1 / 2 :: real)"
proof -
  define x :: real where "x = 7545853602163669 / 2 ^ 55"
  define P :: real where "P = x - x ^ 3 / 6 + x ^ 5 / 120 - x ^ 7 / 5040 + x ^ 9 / 362880 - x ^ 11 / 39916800 + x ^ 13 / 6227020800"
  have b: "\<bar>sin x - P\<bar> \<le> inverse (fact 14) * \<bar>x\<bar> ^ 14"
    unfolding P_def sin_theta_sum [symmetric] by (rule Maclaurin_sin_bound)
  have r: "inverse (fact 14) * \<bar>x\<bar> ^ 14 \<le> 1 / 2 ^ 64"
    by (simp add: x_def fact_numeral power_divide)
  have l: "251349811229323056695007 / 2 ^ 80 \<le> P"
    by (simp add: x_def P_def power_divide)
  have u: "P \<le> 251349811229323056695008 / 2 ^ 80"
    by (simp add: x_def P_def power_divide)
  have "\<bar>sin x * 2 ^ 55 - 7490808106342645\<bar> < 1 / 2"
    using b r l u by (simp add: abs_le_iff abs_less_iff)
  then show ?thesis by (simp only: x_def)
qed

lemma cos_theta_sum: "(\<Sum>m<14. cos_coeff m * x ^ m) = 1 - x ^ 2 / 2 + x ^ 4 / 24 - x ^ 6 / 720 + x ^ 8 / 40320 - x ^ 10 / 3628800 + x ^ 12 / 479001600" for x :: real
proof -
  have "{..<14::nat} = {0,1,2,3,4,5,6,7,8,9,10,11,12,13}" by auto arith
  then show ?thesis
    by (simp add: cos_coeff_def fact_numeral)
qed

lemma cos_theta: "\<bar>cos (7545853602163669 / 2 ^ 55) * 2 ^ 53 - 8810370340356224\<bar> < (1 / 2 :: real)"
proof -
  define x :: real where "x = 7545853602163669 / 2 ^ 55"
  define P :: real where "P = 1 - x ^ 2 / 2 + x ^ 4 / 24 - x ^ 6 / 720 + x ^ 8 / 40320 - x ^ 10 / 3628800 + x ^ 12 / 479001600"
  have b: "\<bar>cos x - P\<bar> \<le> inverse (fact 14) * \<bar>x\<bar> ^ 14"
    unfolding P_def cos_theta_sum [symmetric] by (rule Maclaurin_cos_bound)
  have r: "inverse (fact 14) * \<bar>x\<bar> ^ 14 \<le> 1 / 2 ^ 64"
    by (simp add: x_def fact_numeral power_divide)
  have l: "1182507889921199038781338 / 2 ^ 80 \<le> P"
    by (simp add: x_def P_def power_divide)
  have u: "P \<le> 1182507889921199038781339 / 2 ^ 80"
    by (simp add: x_def P_def power_divide)
  have "\<bar>cos x * 2 ^ 53 - 8810370340356224\<bar> < 1 / 2"
    using b r l u by (simp add: abs_le_iff abs_less_iff)
  then show ?thesis by (simp only: x_def)
qed

lemma sin_phi_sum: "(\<Sum>m<24. sin_coeff m * x ^ m) = x - x ^ 3 / 6 + x ^ 5 / 120 - x ^ 7 / 5040 + x ^ 9 / 362880 - x ^ 11 / 39916800 + x ^ 13 / 6227020800 - x ^ 15 / 1307674368000 + x ^ 17 / 355687428096000 - x ^ 19 / 121645100408832000 + x ^ 21 / 51090942171709440000 - x ^ 23 / 25852016738884976640000" for x :: real
proof -
  have "{..<24::nat} = {0,1,2,3,4,5,6,7,8,9,10,11,12,13,14,15,16,17,18,19,20,21,22,23}" by auto arith
  then show ?thesis
    by (simp add: sin_coeff_def fact_numeral)
qed

lemma sin_phi: "1 - 1 / 2 ^ 58 \<le> sin (884279719003555 / 2 ^ 49 :: real)"
proof -
  define x :: real where "x = 884279719003555 / 2 ^ 49"
  define P :: real where "P = x - x ^ 3 / 6 + x ^ 5 / 120 - x ^ 7 / 5040 + x ^ 9 / 362880 - x ^ 11 / 39916800 + x ^ 13 / 6227020800 - x ^ 15 / 1307674368000 + x ^ 17 / 355687428096000 - x ^ 19 / 121645100408832000 + x ^ 21 / 51090942171709440000 - x ^ 23 / 25852016738884976640000"
  have b: "\<bar>sin x - P\<bar> \<le> inverse (fact 24) * \<bar>x\<bar> ^ 24"
    unfolding P_def sin_phi_sum [symmetric] by (rule Maclaurin_sin_bound)
  have r: "inverse (fact 24) * \<bar>x\<bar> ^ 24 \<le> 1 / 2 ^ 60"
    by (simp add: x_def fact_numeral power_divide)
  have l: "1 - 1 / 2 ^ 60 \<le> P"
    by (simp add: x_def P_def power_divide)
  have "1 - 1 / 2 ^ 58 \<le> sin x"
    using b r l by (simp add: abs_le_iff)
  then show ?thesis by (simp only: x_def)
qed

lemma nearest_sin_theta: "math_sin nearest (7545853602163669 / 2 ^ 55) = (7490808106342645 / 2 ^ 55)"
proof -
  define s :: real where "s = sin (7545853602163669 / 2 ^ 55)"
  have n: "\<bar>s * 2 ^ 55 - 7490808106342645\<bar> < 1 / 2"
    using sin_theta by (simp only: s_def)
  then have n': "\<bar>s * 2 ^ 55 - of_int 7490808106342645\<bar> < 1 / 2"
    by simp
  have b1: "s * 2 ^ 55 - 7490808106342645 < 1 / 2"
    using n [unfolded abs_less_iff] by (rule conjunct1)
  have b2: "- (s * 2 ^ 55 - 7490808106342645) < 1 / 2"
    using n [unfolded abs_less_iff] by (rule conjunct2)
  have pos: "0 < s"
    using b2 by simp
  have h1: "2 ^ 52 \<le> \<bar>s\<bar> * 2 ^ 55"
    using b2 pos by simp
  have h2: "\<bar>s\<bar> * 2 ^ 55 < 2 ^ 53"
    using b1 pos by simp
  have "fl s = of_int 7490808106342645 / 2 ^ 55"
    using h1 h2 n' by (rule fl_eval)
  then have "fl s = (7490808106342645 / 2 ^ 55)"
    by simp
  then show ?thesis by (simp add: nearest_def s_def)
qed

lemma nearest_cos_theta: "math_cos nearest (7545853602163669 / 2 ^ 55) = (68831018284033 / 2 ^ 46)"
proof -
  define s :: real where "s = cos (7545853602163669 / 2 ^ 55)"
  have n: "\<bar>s * 2 ^ 53 - 8810370340356224\<bar> < 1 / 2"
    using cos_theta by (simp only: s_def)
  then have n': "\<bar>s * 2 ^ 53 - of_int 8810370340356224\<bar> < 1 / 2"
    by simp
  have b1: "s * 2 ^ 53 - 8810370340356224 < 1 / 2"
    using n [unfolded abs_less_iff] by (rule conjunct1)
  have b2: "- (s * 2 ^ 53 - 8810370340356224) < 1 / 2"
    using n [unfolded abs_less_iff] by (rule conjunct2)
  have pos: "0 < s"
    using b2 by simp
  have h1: "2 ^ 52 \<le> \<bar>s\<bar> * 2 ^ 53"
    using b2 pos by simp
  have h2: "\<bar>s\<bar> * 2 ^ 53 < 2 ^ 53"
    using b1 pos by simp
  have "fl s = of_int 8810370340356224 / 2 ^ 53"
    using h1 h2 n' by (rule fl_eval)
  then have "fl s = (68831018284033 / 2 ^ 46)"
    by simp
  then show ?thesis by (simp add: nearest_def s_def)
qed

lemma nearest_cos_mtheta: "math_cos nearest (- (7545853602163669 / 2 ^ 55)) = (68831018284033 / 2 ^ 46)"
  using nearest_cos_theta by (simp add: nearest_def)

lemma nearest_sin_phi: "math_sin nearest (884279719003555 / 2 ^ 49) = 1"
proof -
  define s :: real where "s = sin (884279719003555 / 2 ^ 49)"
  have lo: "1 - 1 / 2 ^ 58 \<le> s"
    using sin_phi by (simp only: s_def)
  have hi: "s \<le> 1"
    unfolding s_def by (rule sin_le_one)
  have "fl s = 1"
  proof (cases "s = 1")
    case True
    then show ?thesis by (simp only: fl_1)
  next
    case False
    with hi have lt: "s < 1" by simp
    have pos: "0 < s" using lo by simp
    have h1: "2 ^ 52 \<le> \<bar>s\<bar> * 2 ^ 53"
      using lo pos by simp
    have h2: "\<bar>s\<bar> * 2 ^ 53 < 2 ^ 53"
      using lt pos by simp
    have n': "\<bar>s * 2 ^ 53 - of_int (2 ^ 53)\<bar> < 1 / 2"
      using lo lt by (simp add: abs_less_iff)
    have "fl s = of_int (2 ^ 53) / 2 ^ 53"
      using h1 h2 n' by (rule fl_eval)
    then show ?thesis by simp
  qed
  then show ?thesis by (simp add: nearest_def s_def)
qed

lemma nearest_sin_0: "math_sin nearest 0 = 0"
  by (simp add: nearest_def fl_0)

lemma nearest_atan2_0_1: "math_atan2 nearest 0 1 = 0"
  by (simp add: nearest_def atan2_def fl_0)

lemma nearest_atan2_pos:
  "0 < math_atan2 nearest (fl (sqrt (2154460652498931 / 2 ^ 51)))
         (fl (sqrt (fl (1 - 2154460652498931 / 2 ^ 51))))"
proof -
  define y where "y = fl (sqrt (2154460652498931 / 2 ^ 51))"
  define x where "x = fl (sqrt (fl (1 - 2154460652498931 / 2 ^ 51)))"
  have "(0::real) < 1 - 2154460652498931 / 2 ^ 51" by simp
  then have "0 < fl (1 - 2154460652498931 / 2 ^ 51)" by (rule fl_pos)
  then have x: "0 < x" by (simp add: x_def fl_pos_iff)
  have y: "0 < y" by (simp add: y_def fl_pos_iff)
  have "0 < arctan (y / x)" using x y by (simp add: arctan_less_iff [of 0, simplified])
  then have "0 < fl (atan2 y x)" using x by (simp add: atan2_def fl_pos_iff)
  then show ?thesis by (simp add: nearest_def x_def y_def)
qed

subsection \<open>Distance\<close>

text \<open>
  In exact arithmetic the expression of \<open>haversine\<close> is the great-circle formula: the
  argument of the square root lies between 0 and 1, where
  \<open>atan2 (sqrt a) (sqrt (1 - a)) = arcsin (sqrt a)\<close>.
\<close>

lemma toRad_exact_diff: "toRad_exact (x - y) = toRad_exact x - toRad_exact y"
  by (simp add: toRad_exact_def diff_divide_distrib left_diff_distrib)

lemma haversine_a_exact_hav:
  "haversine_a_exact lat1 lon1 lat2 lon2 =
     hav (toRad_exact lat2 - toRad_exact lat1)
     + cos (toRad_exact lat1) * cos (toRad_exact lat2) * hav (toRad_exact lon2 - toRad_exact lon1)"
  by (simp add: haversine_a_exact_def hav_def toRad_exact_diff power2_eq_square Let_def algebra_simps)

lemma hav_range: "0 \<le> hav x" "hav x \<le> 1"
  by (simp_all add: hav_def abs_square_le_1 abs_sin_le_one)

lemma cos_prod_bounds:
  "- hav (q - p) \<le> cos p * cos q" "cos p * cos q \<le> 1 - hav (q - p)"
proof -
  have "2 * ((q - p) / 2) = q - p" by simp
  then have d: "cos (q - p) = 1 - 2 * hav (q - p)"
    using cos_double_sin [of "(q - p) / 2"] by (simp only: hav_def)
  have s: "2 * (cos p * cos q) = cos (q - p) + cos (q + p)"
    by (simp add: cos_add cos_diff)
  have "- 1 \<le> cos (q + p)" "cos (q + p) \<le> 1" by simp_all
  with d s show "- hav (q - p) \<le> cos p * cos q" "cos p * cos q \<le> 1 - hav (q - p)"
    by linarith+
qed

lemma haversine_a_exact_range:
  "0 \<le> haversine_a_exact lat1 lon1 lat2 lon2" "haversine_a_exact lat1 lon1 lat2 lon2 \<le> 1"
proof -
  define s where "s = hav (toRad_exact lat2 - toRad_exact lat1)"
  define t where "t = hav (toRad_exact lon2 - toRad_exact lon1)"
  define C where "C = cos (toRad_exact lat1) * cos (toRad_exact lat2)"
  have a: "haversine_a_exact lat1 lon1 lat2 lon2 = s + C * t"
    by (simp add: haversine_a_exact_hav s_def t_def C_def)
  have s: "0 \<le> s" "s \<le> 1" and t: "0 \<le> t" "t \<le> 1"
    by (simp_all add: s_def t_def hav_range)
  have C: "- s \<le> C" "C \<le> 1 - s"
    unfolding s_def C_def by (rule cos_prod_bounds)+
  have "(- s) * t \<le> C * t" using C(1) t(1) by (rule mult_right_mono)
  moreover have "s * t \<le> s * 1" using t(2) s(1) by (rule mult_left_mono)
  ultimately show "0 \<le> haversine_a_exact lat1 lon1 lat2 lon2" unfolding a by simp
  have "C * t \<le> (1 - s) * t" using C(2) t(1) by (rule mult_right_mono)
  moreover have "(1 - s) * t \<le> (1 - s) * 1" using t(2) s(2) by (intro mult_left_mono) simp_all
  ultimately show "haversine_a_exact lat1 lon1 lat2 lon2 \<le> 1" unfolding a by simp
qed

lemma atan2_sqrt_arcsin:
  assumes "0 \<le> a" "a \<le> 1"
  shows "atan2 (sqrt a) (sqrt (1 - a)) = arcsin (sqrt a)"
proof (cases "a = 1")
  case True
  then show ?thesis by (simp add: atan2_def)
next
  case False
  with assms have lt: "a < 1" by simp
  then have pos: "0 < sqrt (1 - a)" by simp
  have x: "- 1 < sqrt a" "sqrt a < 1"
    using assms lt by (auto intro: less_le_trans [of _ 0] simp: real_sqrt_lt_1_iff)
  have "arcsin (sqrt a) = arctan (sqrt a / sqrt (1 - (sqrt a)\<^sup>2))"
    using x by (rule arcsin_arctan)
  also have "(sqrt a)\<^sup>2 = a" using assms by simp
  finally show ?thesis using pos by (simp add: atan2_def)
qed

lemma haversine_exact_spec:
  "haversine_exact lat1 lon1 lat2 lon2 = great_circle_spec lat1 lon1 lat2 lon2"
  using atan2_sqrt_arcsin [OF haversine_a_exact_range, of lat1 lon1 lat2 lon2]
  by (simp only: haversine_exact_def great_circle_spec_def Let_def haversine_a_exact_hav
      toRad_exact_def)

lemma hav_minus: "hav (x - y) = hav (y - x)"
proof -
  have "(x - y) / 2 = - ((y - x) / 2)" by (simp add: diff_divide_distrib)
  then have "sin ((x - y) / 2) = - sin ((y - x) / 2)"
    by (simp only: sin_minus)
  then show ?thesis by (simp add: hav_def)
qed

lemma haversine_exact_self: "haversine_exact la lo la lo = 0"
  by (simp add: haversine_exact_def haversine_a_exact_def toRad_exact_def atan2_def)

lemma haversine_exact_sym:
  "haversine_exact lat1 lon1 lat2 lon2 = haversine_exact lat2 lon2 lat1 lon1"
proof -
  have "haversine_a_exact lat1 lon1 lat2 lon2 = haversine_a_exact lat2 lon2 lat1 lon1"
    by (simp only: haversine_a_exact_hav hav_minus [of "toRad_exact lat2" "toRad_exact lat1"]
        hav_minus [of "toRad_exact lon2" "toRad_exact lon1"]
        mult.commute [of "cos (toRad_exact lat1)"])
  then show ?thesis by (simp only: haversine_exact_def)
qed

lemma haversine_exact_antipodal:
  "haversine_exact (- 12) (- 180) 12 0 = 6371000 * pi"
proof -
  have h: "hav pi = 1" by (simp add: hav_def)
  have d: "toRad_exact 12 - toRad_exact (- 12) = 2 * toRad_exact 12"
    by (simp add: toRad_exact_def)
  have l: "toRad_exact 0 - toRad_exact (- 180) = pi"
    by (simp add: toRad_exact_def)
  have m: "toRad_exact (- 12) = - toRad_exact 12"
    by (simp add: toRad_exact_def)
  have "haversine_a_exact (- 12) (- 180) 12 0
          = (sin (toRad_exact 12))\<^sup>2 + (cos (toRad_exact 12))\<^sup>2"
    by (simp only: haversine_a_exact_hav d l h m cos_minus)
       (simp add: hav_def power2_eq_square)
  then have "haversine_a_exact (- 12) (- 180) 12 0 = 1" by simp
  then show ?thesis by (simp add: haversine_exact_def atan2_def)
qed

text \<open>
  In binary64 arithmetic: \<open>NaN\<close> goes through \<open>Math.atan2\<close> and the products, the
  distance from a point to itself is 0, and the rounding steps of two distances from
  \<open>(-12, -180)\<close> follow.
\<close>

lemma Math_atan2_NaN: "Math_atan2 eng y NaN = NaN"
  by (cases y) (simp_all add: Math_atan2_def)

lemma num_mul_NaN: "num_mul x NaN = NaN"
  by (cases x) (simp_all add: num_mul_def)

lemma toRad_0: "toRad 0 = 0"
  by (simp add: toRad_def fl_0)

lemma haversine_self:
  assumes "math_sin eng 0 = 0" and "math_atan2 eng 0 1 = 0"
  shows "haversine eng la lo la lo = Num 0"
  using assms
  by (simp add: haversine_def haversine_a_def toRad_0 fl_0 fl_1 Math_sqrt_def Math_atan2_def
      num_mul_def Let_def)

lemma fl_24: "fl (12 - - 12) = 24"
  using fl_eval [of "12 - - 12" 48 "6755399441055744"] by simp

lemma toRad_24: "toRad 24 = 7545853602163669 / 2 ^ 54"
proof -
  have t1: "fl (24 * Math_PI) = (2652839157010665 / 2 ^ 45)"
    using fl_eval [of "24 * Math_PI" 46 "5305678314021330"] by (simp add: Math_PI_def)
  have t2: "fl ((2652839157010665 / 2 ^ 45) / 180) = (7545853602163669 / 2 ^ 54)"
    using fl_eval [of "(2652839157010665 / 2 ^ 45) / 180" 54 "7545853602163669"] by simp
  show ?thesis by (simp only: toRad_def t1 t2)
qed

lemma half_24: "fl ((7545853602163669 / 2 ^ 54) / 2) = 7545853602163669 / 2 ^ 55"
  using fl_eval [of "(7545853602163669 / 2 ^ 54) / 2" 55 "7545853602163669"] by simp

lemma fl_180: "fl (0 - - 180) = 180"
  using fl_eval [of "0 - - 180" 45 "6333186975989760"] by simp

lemma toRad_180: "toRad 180 = 884279719003555 / 2 ^ 48"
proof -
  have t1: "fl (180 * Math_PI) = (4974073419394997 / 2 ^ 43)"
    using fl_eval [of "180 * Math_PI" 43 "4974073419394997"] by (simp add: Math_PI_def)
  have t2: "fl ((4974073419394997 / 2 ^ 43) / 180) = (884279719003555 / 2 ^ 48)"
    using fl_eval [of "(4974073419394997 / 2 ^ 43) / 180" 51 "7074237752028440"] by simp
  show ?thesis by (simp only: toRad_def t1 t2)
qed

lemma half_180: "fl ((884279719003555 / 2 ^ 48) / 2) = 884279719003555 / 2 ^ 49"
  using fl_eval [of "(884279719003555 / 2 ^ 48) / 2" 52 "7074237752028440"] by simp

lemma toRad_minus_12: "toRad (- 12) = - (7545853602163669 / 2 ^ 55)"
proof -
  have t1: "fl ((- 12) * Math_PI) = (- (2652839157010665 / 2 ^ 46))"
    using fl_eval [of "(- 12) * Math_PI" 47 "- 5305678314021330"] by (simp add: Math_PI_def)
  have t2: "fl ((- (2652839157010665 / 2 ^ 46)) / 180) = (- (7545853602163669 / 2 ^ 55))"
    using fl_eval [of "(- (2652839157010665 / 2 ^ 46)) / 180" 55 "- 7545853602163669"] by simp
  show ?thesis by (simp only: toRad_def t1 t2)
qed

lemma toRad_12: "toRad 12 = 7545853602163669 / 2 ^ 55"
proof -
  have t1: "fl (12 * Math_PI) = (2652839157010665 / 2 ^ 46)"
    using fl_eval [of "12 * Math_PI" 47 "5305678314021330"] by (simp add: Math_PI_def)
  have t2: "fl ((2652839157010665 / 2 ^ 46) / 180) = (7545853602163669 / 2 ^ 55)"
    using fl_eval [of "(2652839157010665 / 2 ^ 46) / 180" 55 "7545853602163669"] by simp
  show ?thesis by (simp only: toRad_def t1 t2)
qed

lemma fl_sin_sin:
  "fl ((7490808106342645 / 2 ^ 55) * (7490808106342645 / 2 ^ 55)) = 6229706315924309 / 2 ^ 57"
  using fl_eval [of "(7490808106342645 / 2 ^ 55) * (7490808106342645 / 2 ^ 55)" 57 "6229706315924309"]
  by simp

lemma fl_cos_cos:
  "fl ((68831018284033 / 2 ^ 46) * (68831018284033 / 2 ^ 46)) = 2154460652498931 / 2 ^ 51"
  using fl_eval [of "(68831018284033 / 2 ^ 46) * (68831018284033 / 2 ^ 46)" 53 "8617842609995724"]
  by simp

lemma fl_cos_cos_1: "fl ((2154460652498931 / 2 ^ 51) * 1) = 2154460652498931 / 2 ^ 51"
  using fl_eval [of "(2154460652498931 / 2 ^ 51) * 1" 53 "8617842609995724"] by simp

lemma fl_sum:
  "fl ((6229706315924309 / 2 ^ 57) + (2154460652498931 / 2 ^ 51)) = 4503599627370497 / 2 ^ 52"
  using fl_eval [of "(6229706315924309 / 2 ^ 57) + (2154460652498931 / 2 ^ 51)" 52 "4503599627370497"]
  by simp

lemma fl_one_minus: "fl (1 - (4503599627370497 / 2 ^ 52)) = - (1 / 2 ^ 52)"
  using fl_eval [of "1 - (4503599627370497 / 2 ^ 52)" 104 "- 4503599627370496"] by simp

lemma fl_zero_plus: "fl (0 + (2154460652498931 / 2 ^ 51)) = 2154460652498931 / 2 ^ 51"
  using fl_eval [of "0 + (2154460652498931 / 2 ^ 51)" 53 "8617842609995724"] by simp

text \<open>
  From \<open>(-12, -180)\<close> to \<open>(12, 0)\<close>, the point on the other side of the globe: \<open>a\<close> is
  the binary64 number next above 1, for every engine that returns the four numbers of the
  hypotheses.
\<close>

lemma haversine_a_antipodal:
  assumes s1: "math_sin eng (7545853602163669 / 2 ^ 55) = (7490808106342645 / 2 ^ 55)"
    and c1: "math_cos eng (- (7545853602163669 / 2 ^ 55)) = (68831018284033 / 2 ^ 46)"
    and c2: "math_cos eng (7545853602163669 / 2 ^ 55) = (68831018284033 / 2 ^ 46)"
    and s2: "math_sin eng (884279719003555 / 2 ^ 49) = 1"
  shows "haversine_a eng (- 12) (- 180) 12 0 = 4503599627370497 / 2 ^ 52"
  by (simp only: haversine_a_def Let_def fl_24 fl_180 toRad_24 toRad_180 half_24 half_180
      toRad_minus_12 toRad_12 s1 s2 c1 c2 fl_sin_sin fl_cos_cos fl_cos_cos_1 fl_sum)

lemma haversine_antipodal_NaN:
  assumes a: "haversine_a eng (- 12) (- 180) 12 0 = 4503599627370497 / 2 ^ 52"
  shows "haversine eng (- 12) (- 180) 12 0 = NaN"
proof -
  have sq: "Math_sqrt (- (1 / 2 ^ 52)) = NaN"
    by (simp add: Math_sqrt_def)
  show ?thesis
    by (simp only: haversine_def Let_def a fl_one_minus sq Math_atan2_NaN num_mul_NaN)
qed

text \<open>
  From \<open>(-12, -180)\<close> to \<open>(-12, 0)\<close>, half way round the parallel: \<open>a\<close> is below 1 and
  the distance is a positive number.
\<close>

lemma haversine_a_far:
  assumes c1: "math_cos eng (- (7545853602163669 / 2 ^ 55)) = (68831018284033 / 2 ^ 46)"
    and s2: "math_sin eng (884279719003555 / 2 ^ 49) = 1"
    and z1: "math_sin eng 0 = 0"
  shows "haversine_a eng (- 12) (- 180) (- 12) 0 = 2154460652498931 / 2 ^ 51"
proof -
  have d0: "fl (- 12 - - 12) = 0" by (simp add: fl_0)
  have h0: "fl (0 / 2) = 0" by (simp add: fl_0)
  have z: "fl (0 * 0) = 0" by (simp add: fl_0)
  show ?thesis
    by (simp only: haversine_a_def Let_def d0 toRad_0 h0 z1 z fl_180 toRad_180 half_180
        toRad_minus_12 c1 s2 fl_cos_cos fl_cos_cos_1 fl_zero_plus)
qed

lemma haversine_far_pos:
  assumes a: "haversine_a eng (- 12) (- 180) (- 12) 0 = 2154460652498931 / 2 ^ 51"
    and p: "0 < math_atan2 eng (fl (sqrt (2154460652498931 / 2 ^ 51)))
                  (fl (sqrt (fl (1 - 2154460652498931 / 2 ^ 51))))"
  shows "\<exists>d. 0 < d \<and> haversine eng (- 12) (- 180) (- 12) 0 = Num d"
proof -
  define w where "w = math_atan2 eng (fl (sqrt (2154460652498931 / 2 ^ 51)))
                  (fl (sqrt (fl (1 - 2154460652498931 / 2 ^ 51))))"
  have w: "0 < w" using p by (simp only: w_def)
  have x: "(0::real) < 1 - 2154460652498931 / 2 ^ 51" by simp
  then have "0 < fl (1 - 2154460652498931 / 2 ^ 51)" by (rule fl_pos)
  then have s2: "Math_sqrt (fl (1 - 2154460652498931 / 2 ^ 51))
      = Num (fl (sqrt (fl (1 - 2154460652498931 / 2 ^ 51))))"
    by (simp add: Math_sqrt_def)
  have s1: "Math_sqrt (2154460652498931 / 2 ^ 51) = Num (fl (sqrt (2154460652498931 / 2 ^ 51)))"
    by (simp add: Math_sqrt_def)
  have "haversine eng (- 12) (- 180) (- 12) 0 = Num (fl (6371000 * fl (2 * w)))"
    by (simp only: haversine_def Let_def a s1 s2 Math_atan2_def num_mul_def w_def
        prod.case jsnum.case)
  moreover have "0 < fl (6371000 * fl (2 * w))"
    using w by (simp add: fl_pos_iff)
  ultimately show ?thesis by blast
qed

text \<open>
  C8. The distance function should be the great-circle formula with radius 6,371,000 m
  for all coordinates, up to rounding. From \<open>(-12, -180)\<close> to \<open>(12, 0)\<close> the formula
  gives half the circumference, \<open>6371000 \<pi>\<close>; the script computes \<open>a = 1 + 1 / 2 ^ 52\<close>,
  takes \<open>Math.sqrt\<close> of the negative \<open>1 - a\<close> and returns \<open>NaN\<close>. The hypotheses are the
  values of \<open>Math.sin\<close> and \<open>Math.cos\<close> at the three arguments the script passes; they
  are the binary64 numbers nearest to the exact values.
\<close>

theorem haversine_nan:
  assumes "math_sin eng (7545853602163669 / 2 ^ 55) = 7490808106342645 / 2 ^ 55"
    and "math_cos eng (- (7545853602163669 / 2 ^ 55)) = 68831018284033 / 2 ^ 46"
    and "math_cos eng (7545853602163669 / 2 ^ 55) = 68831018284033 / 2 ^ 46"
    and "math_sin eng (884279719003555 / 2 ^ 49) = 1"
  shows "haversine_a eng (- 12) (- 180) 12 0 = 1 + 1 / 2 ^ 52
    \<and> haversine eng (- 12) (- 180) 12 0 = NaN
    \<and> great_circle_spec (- 12) (- 180) 12 0 = 6371000 * pi"
proof -
  have a: "haversine_a eng (- 12) (- 180) 12 0 = 4503599627370497 / 2 ^ 52"
    using assms by (rule haversine_a_antipodal)
  then have "haversine eng (- 12) (- 180) 12 0 = NaN"
    by (rule haversine_antipodal_NaN)
  moreover have "haversine_a eng (- 12) (- 180) 12 0 = 1 + 1 / 2 ^ 52"
    unfolding a by simp
  moreover have "great_circle_spec (- 12) (- 180) 12 0 = 6371000 * pi"
    using haversine_exact_antipodal by (simp only: haversine_exact_spec)
  ultimately show ?thesis by simp
qed

text \<open>
  The engine \<open>nearest\<close> returns the four numbers, so for it the distance is \<open>NaN\<close>.
\<close>

theorem haversine_nan_witness:
  "haversine nearest (- 12) (- 180) 12 0 = NaN
   \<and> great_circle_spec (- 12) (- 180) 12 0 = 6371000 * pi"
  using haversine_nan [OF nearest_sin_theta nearest_cos_mtheta nearest_cos_theta nearest_sin_phi]
  by simp

subsection \<open>Classification\<close>

text \<open>
  C2. Classification is a function of the tags alone (two elements with the same tag
  mapping get the same category) and returns one of the five categories, by precedence: \<open>amenity=hospital\<close> gives hospital, \<open>amenity=police\<close> police,
  \<open>amenity=fire_station\<close> fire, then \<open>emergency=shelter\<close> or \<open>amenity=shelter\<close> gives
  shelter, and everything else unknown.
\<close>

theorem classify_precedence:
  assumes "p_tags e = Tags m"
  shows "classify e \<in> {''hospital'', ''police'', ''fire'', ''shelter'', ''unknown''}
    \<and> (p_tags e' = Tags m \<longrightarrow> classify e' = classify e)
    \<and> (m ''amenity'' = Some ''hospital'' \<longrightarrow> classify e = ''hospital'')
    \<and> (m ''amenity'' = Some ''police'' \<longrightarrow> classify e = ''police'')
    \<and> (m ''amenity'' = Some ''fire_station'' \<longrightarrow> classify e = ''fire'')
    \<and> (m ''amenity'' \<notin> {Some ''hospital'', Some ''police'', Some ''fire_station''}
         \<and> (m ''emergency'' = Some ''shelter'' \<or> m ''amenity'' = Some ''shelter'')
         \<longrightarrow> classify e = ''shelter'')
    \<and> (m ''amenity'' \<notin> {Some ''hospital'', Some ''police'', Some ''fire_station'', Some ''shelter''}
         \<and> m ''emergency'' \<noteq> Some ''shelter''
         \<longrightarrow> classify e = ''unknown'')"
  using assms by (simp add: classify_def or_empty_def getProp_def Let_def)

text \<open>
  An element tagged both \<open>amenity=hospital\<close> and \<open>emergency=shelter\<close> is a hospital;
  \<open>emergency=shelter\<close> with another amenity is a shelter; a restaurant is unknown.
\<close>

theorem classify_precedence_witness:
  "classify \<lparr>p_id = 7, p_lat = 20.001, p_lon = 78.001,
        p_tags = Tags [''emergency'' \<mapsto> ''shelter'', ''amenity'' \<mapsto> ''hospital'']\<rparr> = ''hospital''
   \<and> classify \<lparr>p_id = 8, p_lat = 20.002, p_lon = 78.002,
        p_tags = Tags [''emergency'' \<mapsto> ''shelter'', ''amenity'' \<mapsto> ''bench'']\<rparr> = ''shelter''
   \<and> classify \<lparr>p_id = 9, p_lat = 20.0005, p_lon = 78.0005,
        p_tags = Tags [''amenity'' \<mapsto> ''restaurant'']\<rparr> = ''unknown''"
  using classify_precedence
    [of "\<lparr>p_id = 7, p_lat = 20.001, p_lon = 78.001,
           p_tags = Tags [''emergency'' \<mapsto> ''shelter'', ''amenity'' \<mapsto> ''hospital'']\<rparr>"
        "[''emergency'' \<mapsto> ''shelter'', ''amenity'' \<mapsto> ''hospital'']"
        "\<lparr>p_id = 7, p_lat = 20.001, p_lon = 78.001,
           p_tags = Tags [''emergency'' \<mapsto> ''shelter'', ''amenity'' \<mapsto> ''hospital'']\<rparr>"]
    classify_precedence
    [of "\<lparr>p_id = 8, p_lat = 20.002, p_lon = 78.002,
           p_tags = Tags [''emergency'' \<mapsto> ''shelter'', ''amenity'' \<mapsto> ''bench'']\<rparr>"
        "[''emergency'' \<mapsto> ''shelter'', ''amenity'' \<mapsto> ''bench'']"
        "\<lparr>p_id = 8, p_lat = 20.002, p_lon = 78.002,
           p_tags = Tags [''emergency'' \<mapsto> ''shelter'', ''amenity'' \<mapsto> ''bench'']\<rparr>"]
    classify_precedence
    [of "\<lparr>p_id = 9, p_lat = 20.0005, p_lon = 78.0005,
           p_tags = Tags [''amenity'' \<mapsto> ''restaurant'']\<rparr>"
        "[''amenity'' \<mapsto> ''restaurant'']"
        "\<lparr>p_id = 9, p_lat = 20.0005, p_lon = 78.0005,
           p_tags = Tags [''amenity'' \<mapsto> ''restaurant'']\<rparr>"]
  by simp

text \<open>
  Every property read of \<open>classify\<close> succeeds, so \<open>classify_checked\<close> returns the
  category \<open>classify\<close> gives.
\<close>

lemma classify_checked_value: "classify_checked e = Inr (classify e)"
  by (cases "p_tags e")
     (auto simp add: classify_checked_def classify_def or_empty_def getProp_checked_def getProp_def
        Let_def split: bool.splits)

text \<open>
  C9. \<open>classify\<close> never throws. An element whose \<open>tags\<close> field is absent (\<open>undefined\<close>,
  \<open>null\<close>) or is not a mapping is classified as unknown, exactly as the same element with
  an empty mapping is. It is \<open>elem.tags || {}\<close> that does it: read without it, an absent
  field throws a \<open>TypeError\<close> (last conjunct of the example).
\<close>

theorem classify_without_tags:
  "classify_checked e = Inr (classify e)
   \<and> (p_tags e = NoTags \<or> p_tags e = OtherTags truthy \<longrightarrow>
        classify_checked e = Inr ''unknown''
        \<and> classify_checked e = classify_checked (e\<lparr>p_tags := Tags Map.empty\<rparr>))"
  by (auto simp add: classify_checked_value classify_def or_empty_def getProp_def Let_def
      split: bool.splits)

theorem classify_without_tags_witness:
  "classify_checked \<lparr>p_id = 3, p_lat = 20, p_lon = 78, p_tags = NoTags\<rparr> = Inr ''unknown''
   \<and> classify_checked \<lparr>p_id = 4, p_lat = 20, p_lon = 78, p_tags = OtherTags True\<rparr> = Inr ''unknown''
   \<and> classify_checked \<lparr>p_id = 5, p_lat = 20, p_lon = 78, p_tags = OtherTags False\<rparr> = Inr ''unknown''
   \<and> getProp_checked NoTags ''amenity'' = Inl TypeError"
  using classify_without_tags [of "\<lparr>p_id = 3, p_lat = 20, p_lon = 78, p_tags = NoTags\<rparr>" True]
    classify_without_tags [of "\<lparr>p_id = 4, p_lat = 20, p_lon = 78, p_tags = OtherTags True\<rparr>" True]
    classify_without_tags [of "\<lparr>p_id = 5, p_lat = 20, p_lon = 78, p_tags = OtherTags False\<rparr>" False]
  by (simp add: getProp_checked_def classify_def or_empty_def getProp_def)

subsection \<open>Filtering and ranking\<close>

lemma okTypes_known:
  "t \<in> set (okTypes c) \<Longrightarrow> t \<in> {''hospital'', ''police'', ''fire'', ''shelter''}"
  by (auto simp: okTypes_def split: if_splits)

lemma okTypes_all:
  "okTypes \<lparr>show_hospital = True, show_police = True, show_fire = True, show_shelter = True\<rparr>
     = [''hospital'', ''police'', ''fire'', ''shelter'']"
  by (simp add: okTypes_def)

lemma classify_mk:
  "classify \<lparr>p_id = i, p_lat = a, p_lon = b, p_tags = or_empty t\<rparr>
     = classify \<lparr>p_id = i, p_lat = a, p_lon = b, p_tags = t\<rparr>"
  by (cases t) (simp_all add: classify_def or_empty_def split: bool.splits)

lemma classify_tags: "classify \<lparr>p_id = i, p_lat = a, p_lon = b, p_tags = p_tags e\<rparr> = classify e"
  by (simp add: classify_def)

lemma unsorted_places:
  "map (with_dist eng myLat myLon) (places_filtered es allowed)
     = map (place_of eng myLat myLon) (filter (\<lambda>e. classify e \<in> set allowed) es)"
  by (induction es)
     (simp_all add: places_filtered_def with_dist_def place_of_def classify_mk classify_tags
        element.extend_def typed.extend_def typed.fields_def place.fields_def typed.defs place.defs)

lemma places_array_sort:
  "places eng es allowed myLat myLon
     = array_sort (\<lambda>a b. num_sub (p_dist a) (p_dist b))
         (map (place_of eng myLat myLon) (filter (\<lambda>e. classify e \<in> set allowed) es))"
  by (simp add: places_def unsorted_places)

text \<open>
The sort permutes; on numbers it is the stable sort by key.
\<close>

lemma set_insert_sorted: "set (insert_sorted f x ys) = insert x (set ys)"
  by (induction ys) auto

lemma set_array_sort: "set (array_sort f xs) = set xs"
  by (induction xs) (simp_all add: array_sort_def set_insert_sorted)

lemma insert_sorted_insort:
  assumes "key x \<noteq> NaN" and "\<forall>y \<in> set ys. key y \<noteq> NaN"
  shows "insert_sorted (\<lambda>a b. num_sub (key a) (key b)) x ys = insort_key (\<lambda>a. num_of (key a)) x ys"
  using assms
proof (induction ys)
  case Nil
  then show ?case by simp
next
  case (Cons y ys)
  from Cons.prems obtain a b where "key x = Num a" "key y = Num b"
    by (cases "key x"; cases "key y") auto
  with Cons show ?case
    by (auto simp add: positive_sub num_of_def)
qed

lemma array_sort_sort_key:
  assumes "\<forall>x \<in> set xs. key x \<noteq> NaN"
  shows "array_sort (\<lambda>a b. num_sub (key a) (key b)) xs = sort_key (\<lambda>a. num_of (key a)) xs"
  using assms
proof (induction xs)
  case Nil
  then show ?case by (simp add: array_sort_def)
next
  case (Cons x xs)
  then have "array_sort (\<lambda>a b. num_sub (key a) (key b)) xs = sort_key (\<lambda>a. num_of (key a)) xs"
    by simp
  moreover have "\<forall>y \<in> set (sort_key (\<lambda>a. num_of (key a)) xs). key y \<noteq> NaN"
    using Cons.prems by simp
  ultimately show ?case
    using Cons.prems insert_sorted_insort [of key x "sort_key (\<lambda>a. num_of (key a)) xs"]
    by (simp add: array_sort_def sort_key_def)
qed

lemma sorted_num_le:
  assumes "\<forall>v \<in> set vs. v \<noteq> NaN" and "sorted (map num_of vs)"
  shows "sorted_wrt num_le vs"
  using assms
proof (induction vs)
  case Nil
  then show ?case by simp
next
  case (Cons v vs)
  have "num_le v w" if "w \<in> set vs" for w
  proof -
    from Cons.prems that obtain a b where "v = Num a" "w = Num b"
      by (cases v; cases w) auto
    with Cons.prems(2) that show ?thesis by (auto simp add: num_le_def num_of_def)
  qed
  with Cons show ?case by simp
qed

text \<open>
  What holds of the list \<open>places\<close>. Every entry has a selected type, never unknown, and
  comes from an element of the answer with its distance. When no distance is \<open>NaN\<close> the
  list is in non-decreasing order of distance and entries at the same distance keep the
  order of the answer.
\<close>

lemma places_ranked:
  "(\<forall>p \<in> set (places eng es (okTypes c) myLat myLon).
        p_type p \<in> set (okTypes c) \<and> p_type p \<noteq> ''unknown''
        \<and> (\<exists>e \<in> set es. p_id p = p_id e \<and> p_type p = classify e
              \<and> p_dist p = haversine eng myLat myLon (p_lat e) (p_lon e)))
   \<and> ((\<forall>p \<in> set (places eng es (okTypes c) myLat myLon). p_dist p \<noteq> NaN) \<longrightarrow>
        sorted_wrt num_le (map p_dist (places eng es (okTypes c) myLat myLon))
        \<and> (\<forall>d. map p_id (filter (\<lambda>p. p_dist p = d) (places eng es (okTypes c) myLat myLon))
          = map p_id (filter (\<lambda>e. classify e \<in> set (okTypes c)
                                  \<and> haversine eng myLat myLon (p_lat e) (p_lon e) = d) es)))"
proof (intro conjI ballI impI allI)
  let ?in = "filter (\<lambda>e. classify e \<in> set (okTypes c)) es"
  let ?un = "map (place_of eng myLat myLon) ?in"
  let ?out = "places eng es (okTypes c) myLat myLon"
  have out: "?out = array_sort (\<lambda>a b. num_sub (p_dist a) (p_dist b)) ?un"
    by (rule places_array_sort)
  have set_out: "set ?out = set ?un"
    unfolding out by (rule set_array_sort)
  {
    fix p assume "p \<in> set ?out"
    then obtain e where e: "e \<in> set es" "classify e \<in> set (okTypes c)"
        "p = place_of eng myLat myLon e"
      unfolding set_out by auto
    from e show "p_type p \<in> set (okTypes c)" by (simp add: place_of_def)
    from e okTypes_known [of "classify e" c] show "p_type p \<noteq> ''unknown''"
      by (auto simp add: place_of_def)
    from e show "\<exists>e \<in> set es. p_id p = p_id e \<and> p_type p = classify e
              \<and> p_dist p = haversine eng myLat myLon (p_lat e) (p_lon e)"
      by (auto simp add: place_of_def)
  }
  assume num: "\<forall>p \<in> set ?out. p_dist p \<noteq> NaN"
  then have num': "\<forall>p \<in> set ?un. p_dist p \<noteq> NaN"
    unfolding set_out .
  have sk: "?out = sort_key (\<lambda>a. num_of (p_dist a)) ?un"
    unfolding out using num' by (rule array_sort_sort_key)
  have "sorted (map (\<lambda>a. num_of (p_dist a)) ?out)"
    unfolding sk by (rule sorted_sort_key)
  then have "sorted (map num_of (map p_dist ?out))" by (simp add: o_def)
  with num show "sorted_wrt num_le (map p_dist ?out)"
    by (intro sorted_num_le) auto
  fix d
  show "map p_id (filter (\<lambda>p. p_dist p = d) ?out)
          = map p_id (filter (\<lambda>e. classify e \<in> set (okTypes c)
                                  \<and> haversine eng myLat myLon (p_lat e) (p_lon e) = d) es)"
  proof (cases d)
    case NaN
    with num have "filter (\<lambda>p. p_dist p = d) ?out = []" by (simp add: filter_empty_conv)
    moreover from NaN num' have "filter (\<lambda>e. classify e \<in> set (okTypes c)
        \<and> haversine eng myLat myLon (p_lat e) (p_lon e) = d) es = []"
      by (auto simp add: filter_empty_conv place_of_def)
    ultimately show ?thesis by simp
  next
    case (Num r)
    have eq: "(p_dist p = d) = (num_of (p_dist p) = r)" if "p \<in> set ?un" for p
      using that num' Num by (cases "p_dist p") (auto simp add: num_of_def)
    have "filter (\<lambda>p. p_dist p = d) ?out = filter (\<lambda>p. num_of (p_dist p) = r) ?out"
      using eq set_out by (intro filter_cong) auto
    also have "\<dots> = filter (\<lambda>p. num_of (p_dist p) = r) ?un"
      unfolding sk by (rule sort_key_stable)
    also have "\<dots> = filter (\<lambda>p. p_dist p = d) ?un"
      using eq by (intro filter_cong) auto
    finally show ?thesis
      by (simp add: filter_map o_def place_of_def conj_commute)
  qed
qed

text \<open>
  C1. The list on display should be in non-decreasing order of distance for every answer
  and every own position. With the own position at \<open>(-12, -180)\<close> and three hospitals, at
  \<open>(-12, 0)\<close>, at \<open>(12, 0)\<close> and at the own position, the distances are a positive
  number, \<open>NaN\<close> and 0; every comparison with \<open>NaN\<close> leaves the order as it is, and the
  list keeps the order of the answer, the farthest hospital first and the nearest last.
  The first four hypotheses are the values of \<open>Math.sin\<close> and \<open>Math.cos\<close> that make
  the second distance \<open>NaN\<close>; the others are
  \<open>Math.sin(0) = 0\<close>, \<open>Math.atan2(0, 1) = 0\<close> and that \<open>Math.atan2\<close> is positive at the
  two positive arguments it gets for the first hospital.
\<close>

theorem places_unsorted:
  assumes s1: "math_sin eng (7545853602163669 / 2 ^ 55) = 7490808106342645 / 2 ^ 55"
    and c1: "math_cos eng (- (7545853602163669 / 2 ^ 55)) = 68831018284033 / 2 ^ 46"
    and c2: "math_cos eng (7545853602163669 / 2 ^ 55) = 68831018284033 / 2 ^ 46"
    and s2: "math_sin eng (884279719003555 / 2 ^ 49) = 1"
    and z1: "math_sin eng 0 = 0"
    and z2: "math_atan2 eng 0 1 = 0"
    and p: "0 < math_atan2 eng (fl (sqrt (2154460652498931 / 2 ^ 51)))
                  (fl (sqrt (fl (1 - 2154460652498931 / 2 ^ 51))))"
  shows "\<exists>d. 0 < d
    \<and> map (\<lambda>p. (p_id p, p_type p, p_dist p)) (places eng
      [\<lparr>p_id = 1, p_lat = - 12, p_lon = 0, p_tags = Tags [''amenity'' \<mapsto> ''hospital'']\<rparr>,
       \<lparr>p_id = 2, p_lat = 12, p_lon = 0, p_tags = Tags [''amenity'' \<mapsto> ''hospital'']\<rparr>,
       \<lparr>p_id = 3, p_lat = - 12, p_lon = - 180, p_tags = Tags [''amenity'' \<mapsto> ''hospital'']\<rparr>]
      (okTypes \<lparr>show_hospital = True, show_police = True, show_fire = True, show_shelter = True\<rparr>)
      (- 12) (- 180))
      = [(1, ''hospital'', Num d), (2, ''hospital'', NaN), (3, ''hospital'', Num 0)]"
proof -
  have "haversine_a eng (- 12) (- 180) (- 12) 0 = 2154460652498931 / 2 ^ 51"
    using c1 s2 z1 by (rule haversine_a_far)
  then obtain d where d: "0 < d" and d1: "haversine eng (- 12) (- 180) (- 12) 0 = Num d"
    using p haversine_far_pos by blast
  have "haversine_a eng (- 12) (- 180) 12 0 = 4503599627370497 / 2 ^ 52"
    using s1 c1 c2 s2 by (rule haversine_a_antipodal)
  then have d2: "haversine eng (- 12) (- 180) 12 0 = NaN"
    by (rule haversine_antipodal_NaN)
  have d3: "haversine eng (- 12) (- 180) (- 12) (- 180) = Num 0"
    using z1 z2 by (rule haversine_self)
  have "map (\<lambda>p. (p_id p, p_type p, p_dist p)) (places eng
      [\<lparr>p_id = 1, p_lat = - 12, p_lon = 0, p_tags = Tags [''amenity'' \<mapsto> ''hospital'']\<rparr>,
       \<lparr>p_id = 2, p_lat = 12, p_lon = 0, p_tags = Tags [''amenity'' \<mapsto> ''hospital'']\<rparr>,
       \<lparr>p_id = 3, p_lat = - 12, p_lon = - 180, p_tags = Tags [''amenity'' \<mapsto> ''hospital'']\<rparr>]
      (okTypes \<lparr>show_hospital = True, show_police = True, show_fire = True, show_shelter = True\<rparr>)
      (- 12) (- 180))
      = [(1, ''hospital'', Num d), (2, ''hospital'', NaN), (3, ''hospital'', Num 0)]"
    by (simp add: places_array_sort okTypes_all place_of_def classify_def or_empty_def getProp_def
        d1 d2 d3 array_sort_def num_sub_def positive_def)
  with d show ?thesis by (intro exI [of _ d] conjI)
qed

theorem places_unsorted_witness:
  "\<exists>d. 0 < d
    \<and> map (\<lambda>p. (p_id p, p_type p, p_dist p)) (places nearest
      [\<lparr>p_id = 1, p_lat = - 12, p_lon = 0, p_tags = Tags [''amenity'' \<mapsto> ''hospital'']\<rparr>,
       \<lparr>p_id = 2, p_lat = 12, p_lon = 0, p_tags = Tags [''amenity'' \<mapsto> ''hospital'']\<rparr>,
       \<lparr>p_id = 3, p_lat = - 12, p_lon = - 180, p_tags = Tags [''amenity'' \<mapsto> ''hospital'']\<rparr>]
      (okTypes \<lparr>show_hospital = True, show_police = True, show_fire = True, show_shelter = True\<rparr>)
      (- 12) (- 180))
      = [(1, ''hospital'', Num d), (2, ''hospital'', NaN), (3, ''hospital'', Num 0)]"
  using places_unsorted [OF nearest_sin_theta nearest_cos_mtheta nearest_cos_theta
      nearest_sin_phi nearest_sin_0 nearest_atan2_0_1 nearest_atan2_pos]
  by simp

subsection \<open>Discovery\<close>

lemma show_nat_500: "show_nat 500 = ''500''"
  by code_simp

lemma setStatus_twice: "setStatus a (setStatus b s) = setStatus a s"
  by (simp add: setStatus_def)

text \<open>
  C5. When the request is rejected (network failure) or the response has a non-success
  status, the \<open>try\<close> body of \<open>fetchNearby\<close> ends in an exception that carries the message
  or the status, and \<open>fetchNearby\<close> returns the empty list with that message in the status
  line.
\<close>

theorem fetchNearby_failure:
  "fetchNearby_try (Rejected message) = Inl message
   \<and> fetchNearby (Rejected message) s = ([], setStatus (OverpassFailed message) s)
   \<and> (\<not> ok res \<longrightarrow>
        fetchNearby_try (Resolved res) = Inl (''Overpass error '' @ show_nat (status res))
        \<and> fetchNearby (Resolved res) s
            = ([], setStatus (OverpassFailed (''Overpass error '' @ show_nat (status res))) s))"
  by (simp add: fetchNearby_def fetchNearby_resume_def fetchNearby_try_def fetch_json_def
      fetchNearby_begin_def setStatus_twice)

theorem fetchNearby_failure_witness:
  "fetchNearby (Resolved \<lparr>ok = False, status = 500, json = Inl ''Internal Server Error''\<rparr>)
     \<lparr>meMarker = Some (20, 78), placeMarkers = [], routeLayer = None, mapLayers = {},
       nextLayer = 0, statusEl = Located 20 78 12, resultsEl = []\<rparr>
   = ([], \<lparr>meMarker = Some (20, 78), placeMarkers = [], routeLayer = None, mapLayers = {},
       nextLayer = 0, statusEl = OverpassFailed ''Overpass error 500'', resultsEl = []\<rparr>)"
  using fetchNearby_failure
    [where res = "\<lparr>ok = False, status = 500, json = Inl ''Internal Server Error''\<rparr>"
       and s = "\<lparr>meMarker = Some (20, 78), placeMarkers = [], routeLayer = None, mapLayers = {},
       nextLayer = 0, statusEl = Located 20 78 12, resultsEl = []\<rparr>"]
  by (simp add: show_nat_500 setStatus_def)

text \<open>
  C6, as the script has it. Every discovery cycle starts by clearing the list on display
  and the place markers, and changes nothing else but the status line (the own position,
  the route slot and the route layers on the map stay). When the answer is a failure (a
  failed request, or no element) the rest of the cycle sets the status line and nothing
  else, whatever the state is at that moment: the list stays as it is then, empty when
  nothing ran in between (last conjunct), or what another cycle has put there.
\<close>

theorem scanNearby_failure:
  "scanNearby_begin radius_value s
     = (case meMarker s of
          None \<Rightarrow> (setStatus NoLocationYet (clearPlaces s), None)
        | Some (la, lng) \<Rightarrow>
            (setStatus SearchingNearby (clearPlaces s),
             Some \<lparr>req_lat = la, req_lng = lng, req_radius = radius_of radius_value\<rparr>))
   \<and> resultsEl (clearPlaces s) = [] \<and> placeMarkers (clearPlaces s) = []
   \<and> meMarker (clearPlaces s) = meMarker s \<and> routeLayer (clearPlaces s) = routeLayer s
   \<and> mapLayers (clearPlaces s) = mapLayers s
   \<and> (fetchNearby_try outcome = Inl message \<or> fetchNearby_try outcome = Inr [] \<longrightarrow>
        scanNearby_resume eng req c outcome s' = setStatus NoPlacesFound s')
   \<and> (fetchNearby_try outcome = Inl message \<or> fetchNearby_try outcome = Inr [] \<longrightarrow>
        scanNearby eng radius_value c outcome s
          = setStatus (if meMarker s = None then NoLocationYet else NoPlacesFound) (clearPlaces s))"
  by (auto simp add: scanNearby_def scanNearby_begin_def scanNearby_resume_def fetchNearby_resume_def
      fetchNearby_begin_def setStatus_twice clearPlaces_def Let_def split: option.splits prod.splits)

text \<open>
  A cycle starts with a hospital on display and clears the list. When its request fails,
  another cycle has put a police station on display; the list stays and the status line
  reads that no places were found.
\<close>

theorem scanNearby_failure_witness:
  "fst (scanNearby_begin ''2000''
      \<lparr>meMarker = Some (20, 78),
       placeMarkers = [\<lparr>p_id = 1, p_lat = 20, p_lon = 78, p_tags = Tags [''amenity'' \<mapsto> ''hospital''], p_type = ''hospital'', p_dist = Num 0\<rparr>],
       routeLayer = Some (Layer 0 [(78, 20), (78.001, 20.001)]),
       mapLayers = {Layer 0 [(78, 20), (78.001, 20.001)]},
       nextLayer = 1, statusEl = FoundPlaces 1,
       resultsEl = [\<lparr>p_id = 1, p_lat = 20, p_lon = 78, p_tags = Tags [''amenity'' \<mapsto> ''hospital''], p_type = ''hospital'', p_dist = Num 0\<rparr>]\<rparr>)
   = \<lparr>meMarker = Some (20, 78), placeMarkers = [],
       routeLayer = Some (Layer 0 [(78, 20), (78.001, 20.001)]),
       mapLayers = {Layer 0 [(78, 20), (78.001, 20.001)]},
       nextLayer = 1, statusEl = SearchingNearby, resultsEl = []\<rparr>
   \<and> scanNearby_resume nearest \<lparr>req_lat = 20, req_lng = 78, req_radius = 2000\<rparr>
      \<lparr>show_hospital = True, show_police = True, show_fire = True, show_shelter = True\<rparr>
      (Rejected ''Failed to fetch'')
      \<lparr>meMarker = Some (20, 78),
       placeMarkers = [\<lparr>p_id = 2, p_lat = 20, p_lon = 78, p_tags = Tags [''amenity'' \<mapsto> ''police''], p_type = ''police'', p_dist = Num 0\<rparr>],
       routeLayer = Some (Layer 0 [(78, 20), (78.001, 20.001)]),
       mapLayers = {Layer 0 [(78, 20), (78.001, 20.001)]},
       nextLayer = 1, statusEl = FoundPlaces 1,
       resultsEl = [\<lparr>p_id = 2, p_lat = 20, p_lon = 78, p_tags = Tags [''amenity'' \<mapsto> ''police''], p_type = ''police'', p_dist = Num 0\<rparr>]\<rparr>
   = \<lparr>meMarker = Some (20, 78),
       placeMarkers = [\<lparr>p_id = 2, p_lat = 20, p_lon = 78, p_tags = Tags [''amenity'' \<mapsto> ''police''], p_type = ''police'', p_dist = Num 0\<rparr>],
       routeLayer = Some (Layer 0 [(78, 20), (78.001, 20.001)]),
       mapLayers = {Layer 0 [(78, 20), (78.001, 20.001)]},
       nextLayer = 1, statusEl = NoPlacesFound,
       resultsEl = [\<lparr>p_id = 2, p_lat = 20, p_lon = 78, p_tags = Tags [''amenity'' \<mapsto> ''police''], p_type = ''police'', p_dist = Num 0\<rparr>]\<rparr>"
  using scanNearby_failure
    [where outcome = "Rejected ''Failed to fetch''" and message = "''Failed to fetch''"
       and radius_value = "''2000''" and eng = nearest
       and req = "\<lparr>req_lat = 20, req_lng = 78, req_radius = 2000\<rparr>"
       and c = "\<lparr>show_hospital = True, show_police = True, show_fire = True, show_shelter = True\<rparr>"
       and s = "\<lparr>meMarker = Some (20, 78),
       placeMarkers = [\<lparr>p_id = 1, p_lat = 20, p_lon = 78, p_tags = Tags [''amenity'' \<mapsto> ''hospital''], p_type = ''hospital'', p_dist = Num 0\<rparr>],
       routeLayer = Some (Layer 0 [(78, 20), (78.001, 20.001)]),
       mapLayers = {Layer 0 [(78, 20), (78.001, 20.001)]},
       nextLayer = 1, statusEl = FoundPlaces 1,
       resultsEl = [\<lparr>p_id = 1, p_lat = 20, p_lon = 78, p_tags = Tags [''amenity'' \<mapsto> ''hospital''], p_type = ''hospital'', p_dist = Num 0\<rparr>]\<rparr>"
       and s' = "\<lparr>meMarker = Some (20, 78),
       placeMarkers = [\<lparr>p_id = 2, p_lat = 20, p_lon = 78, p_tags = Tags [''amenity'' \<mapsto> ''police''], p_type = ''police'', p_dist = Num 0\<rparr>],
       routeLayer = Some (Layer 0 [(78, 20), (78.001, 20.001)]),
       mapLayers = {Layer 0 [(78, 20), (78.001, 20.001)]},
       nextLayer = 1, statusEl = FoundPlaces 1,
       resultsEl = [\<lparr>p_id = 2, p_lat = 20, p_lon = 78, p_tags = Tags [''amenity'' \<mapsto> ''police''], p_type = ''police'', p_dist = Num 0\<rparr>]\<rparr>"]
  by (simp add: fetchNearby_try_def fetch_json_def setStatus_def clearPlaces_def)

text \<open>
  C6, as claimed, fails: with one hospital on display, a cycle whose request is rejected
  ends with an empty list.
\<close>

theorem scanNearby_keeps_list_counterexample:
  "resultsEl (scanNearby nearest ''2000'' \<lparr>show_hospital = True, show_police = True, show_fire = True, show_shelter = True\<rparr>
      (Rejected ''Failed to fetch'')
      \<lparr>meMarker = Some (20, 78),
       placeMarkers = [\<lparr>p_id = 1, p_lat = 20, p_lon = 78, p_tags = Tags [''amenity'' \<mapsto> ''hospital''], p_type = ''hospital'', p_dist = Num 0\<rparr>],
       routeLayer = Some (Layer 0 [(78, 20), (78.001, 20.001)]),
       mapLayers = {Layer 0 [(78, 20), (78.001, 20.001)]},
       nextLayer = 1, statusEl = FoundPlaces 1,
       resultsEl = [\<lparr>p_id = 1, p_lat = 20, p_lon = 78, p_tags = Tags [''amenity'' \<mapsto> ''hospital''], p_type = ''hospital'', p_dist = Num 0\<rparr>]\<rparr>)
   = []
   \<and> resultsEl \<lparr>meMarker = Some (20, 78),
       placeMarkers = [\<lparr>p_id = 1, p_lat = 20, p_lon = 78, p_tags = Tags [''amenity'' \<mapsto> ''hospital''], p_type = ''hospital'', p_dist = Num 0\<rparr>],
       routeLayer = Some (Layer 0 [(78, 20), (78.001, 20.001)]),
       mapLayers = {Layer 0 [(78, 20), (78.001, 20.001)]},
       nextLayer = 1, statusEl = FoundPlaces 1,
       resultsEl = [\<lparr>p_id = 1, p_lat = 20, p_lon = 78, p_tags = Tags [''amenity'' \<mapsto> ''hospital''], p_type = ''hospital'', p_dist = Num 0\<rparr>]\<rparr>
     \<noteq> []"
  by (simp add: scanNearby_def scanNearby_begin_def scanNearby_resume_def fetchNearby_resume_def
      fetchNearby_try_def fetch_json_def fetchNearby_begin_def setStatus_def clearPlaces_def)

text \<open>
  C7. The radius of a cycle should be a positive integer, 2000 replacing every input that
  is not one. For the input \<open>-5\<close> the script keeps \<open>-5\<close>: \<open>parseInt\<close> reads it, it is
  truthy, and the query is built with it.
\<close>

lemma radius_minus5: "radius_of ''-5'' = - 5"
  by code_simp

lemma show_int_minus5: "show_int (- 5) = ''-5''"
  by code_simp

theorem negative_radius_used:
  "radius_of ''-5'' = - 5
   \<and> snd (scanNearby_begin ''-5''
      \<lparr>meMarker = Some (20, 78), placeMarkers = [], routeLayer = None, mapLayers = {},
       nextLayer = 0, statusEl = Located 20 78 12, resultsEl = []\<rparr>)
     = Some \<lparr>req_lat = 20, req_lng = 78, req_radius = - 5\<rparr>
   \<and> scan_query ''20'' ''78'' ''-5'' =
     ''[out:json][timeout:25];(node(around:-5,20,78)[amenity=hospital];node(around:-5,20,78)[amenity=police];node(around:-5,20,78)[amenity=fire_station];node(around:-5,20,78)[emergency=shelter];node(around:-5,20,78)[amenity=shelter];);out center;''"
  by (simp add: radius_minus5 show_int_minus5 scanNearby_begin_def clearPlaces_def scan_query_def
      buildOverpassQuery_def)

subsection \<open>Routing\<close>

lemma routeTo_resume_no_routes:
  assumes "fetch_json ''Routing error '' outcome = Inr j"
    and "routes j = None \<or> routes j = Some []"
  shows "routeTo_resume outcome s
     = setStatus NoRouteFound (case routeLayer s of None \<Rightarrow> s | Some l \<Rightarrow> removeLayer l s)"
  using assms by (auto simp add: routeTo_resume_def)

text \<open>
  C4. A successful response with an empty route list should leave the displayed route as
  it is. With a route on display, the script reports that no route was found, but has
  already taken the layer off the map, while \<open>routeLayer\<close> still refers to it.
\<close>

theorem routeTo_empty_routes_removes_layer:
  "displayed_route \<lparr>meMarker = Some (20, 78), placeMarkers = [],
       routeLayer = Some (Layer 0 [(78, 20), (78.001, 20.001)]),
       mapLayers = {Layer 0 [(78, 20), (78.001, 20.001)]},
       nextLayer = 1, statusEl = RequestingRoute, resultsEl = []\<rparr>
     = Some (Layer 0 [(78, 20), (78.001, 20.001)])
   \<and> routeTo_resume (Resolved \<lparr>ok = True, status = 200, json = Inr \<lparr>routes = Some []\<rparr>\<rparr>)
      \<lparr>meMarker = Some (20, 78), placeMarkers = [],
       routeLayer = Some (Layer 0 [(78, 20), (78.001, 20.001)]),
       mapLayers = {Layer 0 [(78, 20), (78.001, 20.001)]},
       nextLayer = 1, statusEl = RequestingRoute, resultsEl = []\<rparr>
     = \<lparr>meMarker = Some (20, 78), placeMarkers = [],
       routeLayer = Some (Layer 0 [(78, 20), (78.001, 20.001)]),
       mapLayers = {},
       nextLayer = 1, statusEl = NoRouteFound, resultsEl = []\<rparr>
   \<and> displayed_route \<lparr>meMarker = Some (20, 78), placeMarkers = [],
       routeLayer = Some (Layer 0 [(78, 20), (78.001, 20.001)]),
       mapLayers = {},
       nextLayer = 1, statusEl = NoRouteFound, resultsEl = []\<rparr> = None"
  by (simp add: routeTo_resume_def fetch_json_def removeLayer_def setStatus_def displayed_route_def)




subsection \<open>Clearing the route\<close>

text \<open>
  The handler tests \<open>routeLayer\<close>; when it is \<open>null\<close> the click changes nothing.
\<close>

lemma clearRoute_click_no_layer:
  assumes "routeLayer s = None"
  shows "clearRoute_click s = s"
  using assms by (simp add: clearRoute_click_def)

text \<open>
  C10. A click on \<open>clearRoute\<close> while no route is displayed should change nothing. After
  a request that was answered with an empty route list (C4) no route is displayed and the
  coordinator is \<open>Idle\<close>, but \<open>routeLayer\<close> still refers to the layer that was taken off
  the map; the click then resets \<open>routeLayer\<close> and sets the status line to the message
  that the route was cleared.
\<close>

theorem clearRoute_click_after_no_route:
  "coordinator_state False
     (routeTo_resume (Resolved \<lparr>ok = True, status = 200, json = Inr \<lparr>routes = Some []\<rparr>\<rparr>)
       \<lparr>meMarker = Some (20, 78), placeMarkers = [],
        routeLayer = Some (Layer 0 [(78, 20), (78.001, 20.001)]),
        mapLayers = {Layer 0 [(78, 20), (78.001, 20.001)]},
        nextLayer = 1, statusEl = RequestingRoute, resultsEl = []\<rparr>) = Idle
   \<and> clearRoute_click
     (routeTo_resume (Resolved \<lparr>ok = True, status = 200, json = Inr \<lparr>routes = Some []\<rparr>\<rparr>)
       \<lparr>meMarker = Some (20, 78), placeMarkers = [],
        routeLayer = Some (Layer 0 [(78, 20), (78.001, 20.001)]),
        mapLayers = {Layer 0 [(78, 20), (78.001, 20.001)]},
        nextLayer = 1, statusEl = RequestingRoute, resultsEl = []\<rparr>)
     = \<lparr>meMarker = Some (20, 78), placeMarkers = [], routeLayer = None, mapLayers = {},
        nextLayer = 1, statusEl = RouteCleared, resultsEl = []\<rparr>
   \<and> routeTo_resume (Resolved \<lparr>ok = True, status = 200, json = Inr \<lparr>routes = Some []\<rparr>\<rparr>)
       \<lparr>meMarker = Some (20, 78), placeMarkers = [],
        routeLayer = Some (Layer 0 [(78, 20), (78.001, 20.001)]),
        mapLayers = {Layer 0 [(78, 20), (78.001, 20.001)]},
        nextLayer = 1, statusEl = RequestingRoute, resultsEl = []\<rparr>
     = \<lparr>meMarker = Some (20, 78), placeMarkers = [],
        routeLayer = Some (Layer 0 [(78, 20), (78.001, 20.001)]), mapLayers = {},
        nextLayer = 1, statusEl = NoRouteFound, resultsEl = []\<rparr>"
  by (simp add: routeTo_resume_def fetch_json_def removeLayer_def setStatus_def
      displayed_route_def coordinator_state_def clearRoute_click_def)

end
